theory Spec2Isabelle
  imports Main
begin

section \<open>JavaScript values\<close>

text \<open>
  The values that cross the client: packets, wire envelopes, errors. Numbers are kept as
  integers (no claim depends on a fraction). \<open>JsError name message\<close> is an \<open>Error\<close>
  object; objects are association lists of their own enumerable properties.
\<close>

datatype jsval =
    Undefined
  | Null
  | Bool bool
  | Num int
  | Str string
  | Arr "jsval list"
  | Obj "(string \<times> jsval) list"
  | JsError string string

text \<open>ToBoolean: what \<open>if (v)\<close>, \<open>!v\<close>, \<open>a || b\<close> and \<open>a ? b : c\<close> test.\<close>

fun truthy :: "jsval \<Rightarrow> bool" where
  "truthy Undefined = False"
| "truthy Null = False"
| "truthy (Bool b) = b"
| "truthy (Num n) = (n \<noteq> 0)"
| "truthy (Str s) = (s \<noteq> [])"
| "truthy (Arr xs) = True"
| "truthy (Obj kvs) = True"
| "truthy (JsError n m) = True"

text \<open>Reading a property of a value that is neither \<open>null\<close> nor \<open>undefined\<close>.\<close>

fun js_get :: "jsval \<Rightarrow> string \<Rightarrow> jsval" where
  "js_get (Obj kvs) k = (case map_of kvs k of None \<Rightarrow> Undefined | Some v \<Rightarrow> v)"
| "js_get (JsError n m) k =
     (if k = ''name'' then Str n else if k = ''message'' then Str m else Undefined)"
| "js_get v k = Undefined"

text \<open>
  Reading a property of \<open>null\<close> or \<open>undefined\<close>, and destructuring either, raises a
  TypeError. Its message is the engine's and is left empty.
\<close>

definition TypeError :: jsval where
  "TypeError = JsError ''TypeError'' []"

text \<open>\<open>const { err, response, isDisposed, id } = d\<close>\<close>

definition destructure :: "jsval \<Rightarrow> jsval + (jsval \<times> jsval \<times> jsval \<times> jsval)" where
  "destructure d =
     (if d = Undefined \<or> d = Null then Inl TypeError
      else Inr (js_get d ''err'', js_get d ''response'', js_get d ''isDisposed'', js_get d ''id''))"

section \<open>Packets, options and the collaborators of the client\<close>

record ReadPacket =
  pattern :: jsval
  data :: jsval

text \<open>\<open>ReadPacket & PacketId\<close>: the field \<open>id\<close> of the source is \<open>packet_id\<close> here.\<close>

record Packet = ReadPacket +
  packet_id :: string

definition obj_of_read :: "ReadPacket \<Rightarrow> jsval" where
  "obj_of_read p = Obj [(''pattern'', pattern p), (''data'', data p)]"

definition obj_of_packet :: "Packet \<Rightarrow> jsval" where
  "obj_of_packet p =
     Obj [(''pattern'', pattern p), (''data'', data p), (''id'', Str (packet_id p))]"

text \<open>\<open>RetryStrategyOptions\<close> of the transport: the last error (or \<open>undefined\<close>) and the attempt.\<close>

record RetryStrategyOptions =
  error :: jsval
  attempt :: int

section \<open>The state of a client and of its transport\<close>

text \<open>
  A transport handle is the object \<open>createClient\<close> returns. The \<open>n\<close>-th handshake of
  \<open>connect\<close> creates the handles \<open>(n, Pub)\<close> and \<open>(n, Sub)\<close>, and its \<open>error$\<close> subject
  and its promise are both number \<open>n\<close>.
\<close>

datatype role = Pub | Sub

type_synonym handle = "nat \<times> role"

datatype promise = Pending | Resolved | Rejected jsval

text \<open>
  The pipeline \<open>merge(error$, zip(pubConnect$, subClient$)).pipe(take(1), tap(..), share())
  .toPromise()\<close> of one handshake: whether each handle has emitted its connect event
  since the subscription, and the promise.
\<close>

record handshake =
  pub_connected :: bool
  sub_connected :: bool
  settled :: promise

text \<open>The closures handed to the transport and to the caller, as data.\<close>

datatype ack_callback =
    SubscribeCallback string jsval
  | PublishCallback nat

datatype teardown = Teardown string string

text \<open>Everything the client does to the outside, in the order it does it.\<close>

datatype action =
    CreateClient handle
  | AddErrorListener handle
  | OnMessage handle
  | Quit handle
  | Subscribe handle string
  | Unsubscribe handle string
  | Publish handle string jsval
  | SubjectError nat jsval
  | LogError jsval
  | Callback nat jsval

text \<open>
  What the class uses and does not define: the helpers of its base class \<open>ClientProxy\<close>
  (\<open>getOptionsProp\<close>, \<open>assignPacketId\<close>, \<open>normalizePattern\<close>, the serializer and the
  deserializer), the constant \<open>ECONNREFUSED\<close> and the builtins \<open>JSON.parse\<close> and
  \<open>JSON.stringify\<close>. Each is a parameter; \<open>Inl e\<close> is the exception \<open>e\<close> it throws.

  \<open>getOptionsProp name\<close> is \<open>this.getOptionsProp(this.options, name)\<close> for the numeric
  options \<open>retryAttempts\<close> and \<open>retryDelay\<close>, \<open>None\<close> being \<open>undefined\<close>.
  \<open>assignPacketId n p\<close> is the \<open>n\<close>-th call of \<open>assignPacketId\<close> (the identifier is
  random in the source: the call count stands for the generator's state).

  The callbacks given to \<open>send\<close> are the caller's functions. A callback is a number here,
  and \<open>callback_throws tr c v\<close> is what the call \<open>c(v)\<close> throws, after the actions \<open>tr\<close>
  the client has done so far; \<open>None\<close> when the call returns.
\<close>

record env =
  getOptionsProp :: "string \<Rightarrow> int option"
  ECONNREFUSED :: string
  assignPacketId :: "nat \<Rightarrow> ReadPacket \<Rightarrow> jsval + Packet"
  normalizePattern :: "jsval \<Rightarrow> jsval + string"
  serialize :: "jsval \<Rightarrow> jsval + jsval"
  deserialize :: "jsval \<Rightarrow> jsval + jsval"
  JSON_parse :: "string \<Rightarrow> jsval + jsval"
  JSON_stringify :: "jsval \<Rightarrow> jsval + jsval"
  callback_throws :: "action list \<Rightarrow> nat \<Rightarrow> jsval \<Rightarrow> jsval option"

text \<open>
  The fields of \<open>ClientRedis\<close> (\<open>routingMap\<close> is inherited), then the objects it has
  created: the handshakes, the promises of \<open>dispatchEvent\<close>, the acknowledgment
  callbacks the transport holds, the handles with a message listener, the number of
  calls of \<open>assignPacketId\<close>, and the trace of actions. Calling a callback of
  \<open>send\<close> is the action \<open>Callback\<close>.
\<close>

record client =
  pubClient :: "handle option"
  subClient :: "handle option"
  connection :: "nat option"
  isExplicitlyTerminated :: bool
  routingMap :: "string \<rightharpoonup> nat"
  handshakes :: "handshake list"
  emitted :: "promise list"
  acks :: "ack_callback option list"
  listeners :: "handle list"
  id_calls :: nat
  trace :: "action list"

definition new_client :: client where
  "new_client =
     \<lparr> pubClient = None, subClient = None, connection = None,
       isExplicitlyTerminated = False, routingMap = Map.empty, handshakes = [],
       emitted = [], acks = [], listeners = [], id_calls = 0, trace = [] \<rparr>"

definition act :: "action list \<Rightarrow> client \<Rightarrow> client" where
  "act as st = st\<lparr>trace := trace st @ as\<rparr>"

section \<open>The methods of ClientRedis\<close>

definition getAckPatternName :: "string \<Rightarrow> string" where
  "getAckPatternName p = p @ ''_ack''"

definition getResPatternName :: "string \<Rightarrow> string" where
  "getResPatternName p = p @ ''_res''"

definition quit :: "handle option \<Rightarrow> action list" where
  "quit c = (case c of None \<Rightarrow> [] | Some h \<Rightarrow> [Quit h])"

definition close :: "client \<Rightarrow> client" where
  "close st =
     (act (quit (pubClient st) @ quit (subClient st)) st)
       \<lparr>pubClient := None, subClient := None, isExplicitlyTerminated := True\<rparr>"

text \<open>
  \<open>createClient\<close> asks the transport for a handle; its options carry the
  \<open>retry_strategy\<close> of \<open>getClientOptions\<close>, which the transport calls back (the event
  \<open>RetryEvent\<close> below), and the url, which is not modelled.
\<close>

definition createClient :: "nat \<Rightarrow> role \<Rightarrow> client \<Rightarrow> handle \<times> client" where
  "createClient n r st = ((n, r), act [CreateClient (n, r)] st)"

text \<open>\<open>handleError\<close> adds the listener \<open>(err) => this.logger.error(err)\<close>, run below.\<close>

definition handleError :: "handle \<Rightarrow> client \<Rightarrow> client" where
  "handleError h st = act [AddErrorListener h] st"

definition error_listener :: "client \<Rightarrow> jsval \<Rightarrow> client" where
  "error_listener st err = act [LogError err] st"

text \<open>\<open>connect\<close> returns \<open>this.connection\<close> and the state it leaves.\<close>

definition connect :: "client \<Rightarrow> nat option \<times> client" where
  "connect st =
     (if pubClient st \<noteq> None \<and> subClient st \<noteq> None then (connection st, st)
      else
        let n = length (handshakes st);
            (p, st1) = createClient n Pub st;
            st2 = st1\<lparr>pubClient := Some p\<rparr>;
            (s, st3) = createClient n Sub st2;
            st4 = st3\<lparr>subClient := Some s\<rparr>;
            st5 = handleError p st4;
            st6 = handleError s st5
        in (Some n,
            st6\<lparr>handshakes := handshakes st6 @
                   [\<lparr>pub_connected = False, sub_connected = False, settled = Pending\<rparr>],
                connection := Some n\<rparr>))"

datatype retry = Stop | Exhausted string | Delay int

text \<open>
  \<open>createRetryStrategy\<close> returns \<open>undefined\<close> (\<open>Stop\<close>), an \<open>Error\<close> (\<open>Exhausted\<close>
  with its message) or a number (\<open>Delay\<close>); with it, the errors it has put on \<open>error$\<close>.
\<close>

definition createRetryStrategy ::
  "env \<Rightarrow> client \<Rightarrow> RetryStrategyOptions \<Rightarrow> jsval list \<times> retry" where
  "createRetryStrategy env st options =
     (if truthy (error options) \<and> js_get (error options) ''code'' = Str (ECONNREFUSED env)
      then [error options] else [],
      if isExplicitlyTerminated st then Stop
      else if (case getOptionsProp env ''retryAttempts'' of
                 None \<Rightarrow> True
               | Some n \<Rightarrow> n = 0 \<or> attempt options > n)
      then Exhausted ''Retry time exhausted''
      else (case getOptionsProp env ''retryDelay'' of
              None \<Rightarrow> Delay 0
            | Some d \<Rightarrow> if d \<noteq> 0 then Delay d else Delay 0))"

text \<open>\<open>this.routingMap.get(id)\<close>: the keys are strings, so only a string finds one.\<close>

definition routing_get :: "(string \<rightharpoonup> nat) \<Rightarrow> jsval \<Rightarrow> nat option" where
  "routing_get m v = (case v of Str s \<Rightarrow> m s | _ \<Rightarrow> None)"

text \<open>
  A call of a callback: the action, and what the call throws. What the callback does
  itself is its owner's matter (a later turn of the owner, such as the teardown).
\<close>

definition invoke :: "env \<Rightarrow> nat \<Rightarrow> jsval \<Rightarrow> client \<Rightarrow> client \<times> jsval option" where
  "invoke env callback v st =
     (act [Callback callback v] st, callback_throws env (trace st) callback v)"

text \<open>
  The listener \<open>createResponseCallback\<close> returns, run on \<open>(channel, buffer)\<close>: the state
  it leaves and the exception that leaves it, if any. It has no \<open>try\<close>: what
  \<open>JSON.parse\<close>, the deserializer, the destructuring or the callback throws leaves it.
\<close>

definition createResponseCallback ::
  "env \<Rightarrow> client \<Rightarrow> string \<Rightarrow> string \<Rightarrow> client \<times> jsval option" where
  "createResponseCallback env st channel buffer =
     (case JSON_parse env buffer of
        Inl e \<Rightarrow> (st, Some e)
      | Inr packet \<Rightarrow>
     (case deserialize env packet of
        Inl e \<Rightarrow> (st, Some e)
      | Inr d \<Rightarrow>
     (case destructure d of
        Inl e \<Rightarrow> (st, Some e)
      | Inr (err, response, isDisposed, ident) \<Rightarrow>
     (case routing_get (routingMap st) ident of
        None \<Rightarrow> (st, None)
      | Some callback \<Rightarrow>
          if truthy isDisposed \<or> truthy err
          then invoke env callback
                 (Obj [(''err'', err), (''response'', response),
                       (''isDisposed'', Bool True)]) st
          else invoke env callback
                 (Obj [(''err'', err), (''response'', response)]) st))))"

text \<open>
  The \<open>catch\<close> of \<open>publish\<close>: \<open>callback({ err })\<close>. What that call throws leaves
  \<open>publish\<close> (\<open>publish_raises\<close> below).
\<close>

definition caught :: "nat \<Rightarrow> jsval \<Rightarrow> client \<Rightarrow> client" where
  "caught callback err st = act [Callback callback (Obj [(''err'', err)])] st"

text \<open>
  \<open>publish\<close> returns the teardown (\<open>None\<close> for \<open>undefined\<close>, after the \<open>catch\<close>) and the
  state. \<open>this.subClient.subscribe\<close> on a handle that is \<open>null\<close> raises inside the \<open>try\<close>.
  Its caller, \<open>send\<close> of the base class, is not modelled: \<open>publish\<close> is a turn of its
  own below.
\<close>

definition publish ::
  "env \<Rightarrow> client \<Rightarrow> ReadPacket \<Rightarrow> nat \<Rightarrow> teardown option \<times> client" where
  "publish env st partialPacket callback =
     (let st0 = st\<lparr>id_calls := Suc (id_calls st)\<rparr> in
      case assignPacketId env (id_calls st) partialPacket of
        Inl e \<Rightarrow> (None, caught callback e st0)
      | Inr packet \<Rightarrow>
     (case normalizePattern env (pattern partialPacket) of
        Inl e \<Rightarrow> (None, caught callback e st0)
      | Inr pat \<Rightarrow>
     (case serialize env (obj_of_packet packet) of
        Inl e \<Rightarrow> (None, caught callback e st0)
      | Inr serializedPacket \<Rightarrow>
          let responseChannel = getResPatternName pat;
              st1 = st0\<lparr>routingMap := (routingMap st0)(packet_id packet \<mapsto> callback)\<rparr>
          in
          (case subClient st1 of
             None \<Rightarrow> (None, caught callback TypeError st1)
           | Some h \<Rightarrow>
               (Some (Teardown responseChannel (packet_id packet)),
                (act [Subscribe h responseChannel] st1)
                  \<lparr>acks := acks st1 @ [Some (SubscribeCallback pat serializedPacket)]\<rparr>)))))"

text \<open>
  What leaves \<open>publish\<close>: what the callback throws when the \<open>catch\<close> calls it, the
  caught error being the one of building or serializing the packet, or the TypeError
  of \<open>this.subClient.subscribe\<close> on a handle that is \<open>null\<close>. The result of \<open>publish\<close>
  above has then no teardown either.
\<close>

definition publish_raises :: "env \<Rightarrow> client \<Rightarrow> ReadPacket \<Rightarrow> nat \<Rightarrow> jsval option" where
  "publish_raises env st partialPacket callback =
     (case assignPacketId env (id_calls st) partialPacket of
        Inl e \<Rightarrow> callback_throws env (trace st) callback (Obj [(''err'', e)])
      | Inr packet \<Rightarrow>
     (case normalizePattern env (pattern partialPacket) of
        Inl e \<Rightarrow> callback_throws env (trace st) callback (Obj [(''err'', e)])
      | Inr pat \<Rightarrow>
     (case serialize env (obj_of_packet packet) of
        Inl e \<Rightarrow> callback_throws env (trace st) callback (Obj [(''err'', e)])
      | Inr serializedPacket \<Rightarrow>
          (case subClient st of
             None \<Rightarrow> callback_throws env (trace st) callback (Obj [(''err'', TypeError)])
           | Some h \<Rightarrow> None))))"

text \<open>The callback \<open>publish\<close> gives to \<open>subscribe\<close>, run on the acknowledgment \<open>err\<close>.\<close>

definition subscribe_callback ::
  "env \<Rightarrow> client \<Rightarrow> string \<Rightarrow> jsval \<Rightarrow> jsval \<Rightarrow> jsval + client" where
  "subscribe_callback env st pat serializedPacket err =
     (if truthy err then Inr st
      else
        (case pubClient st of
           None \<Rightarrow> Inl TypeError
         | Some h \<Rightarrow>
             (case JSON_stringify env serializedPacket of
                Inl e \<Rightarrow> Inl e
              | Inr payload \<Rightarrow> Inr (act [Publish h (getAckPatternName pat) payload] st))))"

text \<open>The function \<open>publish\<close> returns, called.\<close>

fun call_teardown :: "client \<Rightarrow> teardown \<Rightarrow> jsval + client" where
  "call_teardown st (Teardown responseChannel ident) =
     (case subClient st of
        None \<Rightarrow> Inl TypeError
      | Some h \<Rightarrow>
          Inr ((act [Unsubscribe h responseChannel] st)
                 \<lparr>routingMap := (routingMap st)(ident := None)\<rparr>))"

text \<open>
  \<open>dispatchEvent\<close> throws what \<open>normalizePattern\<close> or the serializer throws; otherwise it
  returns a new promise (its index in \<open>emitted\<close>). What the executor of the promise
  throws rejects the promise.
\<close>

definition dispatchEvent :: "env \<Rightarrow> client \<Rightarrow> ReadPacket \<Rightarrow> jsval + (nat \<times> client)" where
  "dispatchEvent env st packet =
     (case normalizePattern env (pattern packet) of
        Inl e \<Rightarrow> Inl e
      | Inr pat \<Rightarrow>
     (case serialize env (obj_of_read packet) of
        Inl e \<Rightarrow> Inl e
      | Inr serializedPacket \<Rightarrow>
          let p = length (emitted st) in
          (case pubClient st of
             None \<Rightarrow> Inr (p, st\<lparr>emitted := emitted st @ [Rejected TypeError]\<rparr>)
           | Some h \<Rightarrow>
               (case JSON_stringify env serializedPacket of
                  Inl e \<Rightarrow> Inr (p, st\<lparr>emitted := emitted st @ [Rejected e]\<rparr>)
                | Inr payload \<Rightarrow>
                    Inr (p, (act [Publish h pat payload] st)
                              \<lparr>emitted := emitted st @ [Pending],
                               acks := acks st @ [Some (PublishCallback p)]\<rparr>)))))"

text \<open>\<open>err => err ? reject(err) : resolve()\<close>; a promise settles once.\<close>

definition settle :: "promise \<Rightarrow> promise \<Rightarrow> promise" where
  "settle p new = (if p = Pending then new else p)"

definition publish_callback :: "client \<Rightarrow> nat \<Rightarrow> jsval \<Rightarrow> client" where
  "publish_callback st p err =
     (if p < length (emitted st)
      then st\<lparr>emitted := (emitted st)
             [p := settle (emitted st ! p) (if truthy err then Rejected err else Resolved)]\<rparr>
      else st)"

section \<open>The events of the transport\<close>

text \<open>
  \<open>error$.error(err)\<close> on the subject of handshake \<open>n\<close>: \<open>merge\<close> passes the error on
  and the promise is rejected, if it is still pending.
\<close>

definition subject_error :: "nat \<Rightarrow> jsval \<Rightarrow> client \<Rightarrow> client" where
  "subject_error n err st =
     (let st1 = act [SubjectError n err] st in
      if n < length (handshakes st1)
      then st1\<lparr>handshakes := (handshakes st1)
             [n := (handshakes st1 ! n)
                \<lparr>settled := settle (settled (handshakes st1 ! n)) (Rejected err)\<rparr>]\<rparr>
      else st1)"

text \<open>
  The first value of \<open>zip\<close> runs \<open>tap\<close>: \<open>this.subClient.on(MESSAGE_EVENT, ..)\<close>, which
  raises when \<open>subClient\<close> is \<open>null\<close> (the promise is then rejected), and resolves the
  promise.
\<close>

definition first_value :: "nat \<Rightarrow> client \<Rightarrow> client" where
  "first_value n st =
     (case subClient st of
        None \<Rightarrow> st\<lparr>handshakes := (handshakes st)
                 [n := (handshakes st ! n)\<lparr>settled := Rejected TypeError\<rparr>]\<rparr>
      | Some s \<Rightarrow> (act [OnMessage s] st)
                 \<lparr>handshakes := (handshakes st)
                    [n := (handshakes st ! n)\<lparr>settled := Resolved\<rparr>],
                  listeners := listeners st @ [s]\<rparr>)"

text \<open>The connect event of handle \<open>(n, r)\<close>.\<close>

definition connect_event :: "client \<Rightarrow> handle \<Rightarrow> client" where
  "connect_event st h =
     (let n = fst h in
      if n < length (handshakes st) \<and> settled (handshakes st ! n) = Pending
      then
        let c = handshakes st ! n;
            c1 = (if snd h = Pub then c\<lparr>pub_connected := True\<rparr>
                  else c\<lparr>sub_connected := True\<rparr>);
            st1 = st\<lparr>handshakes := (handshakes st)[n := c1]\<rparr>
        in if pub_connected c1 \<and> sub_connected c1 then first_value n st1 else st1
      else st)"

text \<open>The transport asks the \<open>retry_strategy\<close> of a handle of handshake \<open>n\<close>.\<close>

definition retry_event :: "env \<Rightarrow> client \<Rightarrow> nat \<Rightarrow> RetryStrategyOptions \<Rightarrow> client" where
  "retry_event env st n options =
     fold (subject_error n) (fst (createRetryStrategy env st options)) st"

text \<open>
  A message event on a handle runs each listener added to it; the first that raises
  ends the emission. The result is the state and the exception that left the listener.
\<close>

fun message_event ::
  "env \<Rightarrow> nat \<Rightarrow> client \<Rightarrow> string \<Rightarrow> string \<Rightarrow> client \<times> jsval option" where
  "message_event env 0 st channel buffer = (st, None)"
| "message_event env (Suc k) st channel buffer =
     (case createResponseCallback env st channel buffer of
        (st1, Some e) \<Rightarrow> (st1, Some e)
      | (st1, None) \<Rightarrow> message_event env k st1 channel buffer)"

text \<open>The transport acknowledges its \<open>i\<close>-th subscribe or publish with \<open>err\<close>, once.\<close>

definition ack_event :: "env \<Rightarrow> client \<Rightarrow> nat \<Rightarrow> jsval \<Rightarrow> client \<times> jsval option" where
  "ack_event env st i err =
     (if i < length (acks st)
      then
        (let st1 = st\<lparr>acks := (acks st)[i := None]\<rparr> in
         case acks st ! i of
           None \<Rightarrow> (st, None)
         | Some (SubscribeCallback pat serializedPacket) \<Rightarrow>
             (case subscribe_callback env st1 pat serializedPacket err of
                Inl e \<Rightarrow> (st1, Some e)
              | Inr st2 \<Rightarrow> (st2, None))
         | Some (PublishCallback p) \<Rightarrow> (publish_callback st1 p err, None))
      else (st, None))"

text \<open>
  One turn of the event loop: a call of a method by the owner of the client, or an
  event of the transport. The result is the state and the exception that left the turn.
\<close>

datatype input =
    Connect
  | Close
  | Send ReadPacket nat
  | Cancel teardown
  | Emit ReadPacket
  | ConnectEvent handle
  | ErrorEvent handle jsval
  | RetryEvent handle RetryStrategyOptions
  | MessageEvent handle string string
  | AckEvent nat jsval

fun step :: "env \<Rightarrow> client \<Rightarrow> input \<Rightarrow> client \<times> jsval option" where
  "step env st Connect = (snd (connect st), None)"
| "step env st Close = (close st, None)"
| "step env st (Send p callback) =
     (snd (publish env st p callback), publish_raises env st p callback)"
| "step env st (Cancel td) =
     (case call_teardown st td of Inl e \<Rightarrow> (st, Some e) | Inr st1 \<Rightarrow> (st1, None))"
| "step env st (Emit p) =
     (case dispatchEvent env st p of Inl e \<Rightarrow> (st, Some e) | Inr r \<Rightarrow> (snd r, None))"
| "step env st (ConnectEvent h) = (connect_event st h, None)"
| "step env st (ErrorEvent h err) = (error_listener st err, None)"
| "step env st (RetryEvent h options) = (retry_event env st (fst h) options, None)"
| "step env st (MessageEvent h channel buffer) =
     message_event env (count_list (listeners st) h) st channel buffer"
| "step env st (AckEvent i err) = ack_event env st i err"

definition run :: "env \<Rightarrow> client \<Rightarrow> input list \<Rightarrow> client" where
  "run env st ins = foldl (\<lambda>s i. fst (step env s i)) st ins"

section \<open>Notions the claims use\<close>

text \<open>The test of \<open>connect\<close>: \<open>this.pubClient && this.subClient\<close>.\<close>

definition both_handles :: "client \<Rightarrow> bool" where
  "both_handles st = (pubClient st \<noteq> None \<and> subClient st \<noteq> None)"

text \<open>
  What the first three statements of the \<open>try\<close> of \<open>publish\<close> throw, if one of them
  throws: building the packet (\<open>assignPacketId\<close>, \<open>normalizePattern\<close>) and serializing it.
\<close>

definition build_error :: "env \<Rightarrow> nat \<Rightarrow> ReadPacket \<Rightarrow> jsval option" where
  "build_error env n partialPacket =
     (case assignPacketId env n partialPacket of
        Inl e \<Rightarrow> Some e
      | Inr packet \<Rightarrow>
     (case normalizePattern env (pattern partialPacket) of
        Inl e \<Rightarrow> Some e
      | Inr pat \<Rightarrow>
     (case serialize env (obj_of_packet packet) of
        Inl e \<Rightarrow> Some e
      | Inr serializedPacket \<Rightarrow> None)))"

text \<open>What the router hands to the callback for the deserialized value \<open>d\<close>.\<close>

definition delivered :: "jsval \<Rightarrow> jsval" where
  "delivered d =
     (if truthy (js_get d ''isDisposed'') \<or> truthy (js_get d ''err'')
      then Obj [(''err'', js_get d ''err''), (''response'', js_get d ''response''),
                (''isDisposed'', Bool True)]
      else Obj [(''err'', js_get d ''err''), (''response'', js_get d ''response'')])"

text \<open>The \<open>publish\<close> calls on a transport handle that a client has made so far.\<close>

fun is_Publish :: "action \<Rightarrow> bool" where
  "is_Publish (Publish h c v) = True"
| "is_Publish a = False"

definition publications :: "client \<Rightarrow> action list" where
  "publications st = filter is_Publish (trace st)"

text \<open>
  Whether a turn is a \<open>send\<close> whose packet \<open>assignPacketId\<close> gives the identifier
  \<open>ident\<close>, and whether some turn of a run from \<open>st\<close> is.
\<close>

definition registers :: "env \<Rightarrow> client \<Rightarrow> input \<Rightarrow> string \<Rightarrow> bool" where
  "registers env st i ident =
     (case i of
        Send p callback \<Rightarrow>
          (case assignPacketId env (id_calls st) p of
             Inl e \<Rightarrow> False
           | Inr packet \<Rightarrow> packet_id packet = ident)
      | _ \<Rightarrow> False)"

fun reassigned :: "env \<Rightarrow> client \<Rightarrow> input list \<Rightarrow> string \<Rightarrow> bool" where
  "reassigned env st [] ident = False"
| "reassigned env st (i # ins) ident =
     (registers env st i ident \<or> reassigned env (fst (step env st i)) ins ident)"

section \<open>A concrete environment\<close>

text \<open>
  The environment of the examples: \<open>retryAttempts\<close> 3 and \<open>retryDelay\<close> 50, the
  identifiers \<open>a\<close>, \<open>aa\<close>, ..., the identity serializer and deserializer, callbacks
  that return. The examples use string patterns only, which \<open>normalizePattern\<close> keeps
  as they are.
  \<open>JSON_parse0\<close> and \<open>JSON_stringify0\<close> stand for the builtins on the buffers and the
  packets of the examples: \<open>null\<close> and three envelopes are JSON and parse to the values
  given, and \<open>oops\<close>, the only other buffer, is not JSON.
\<close>

definition JSON_parse0 :: "string \<Rightarrow> jsval + jsval" where
  "JSON_parse0 b =
     (if b = ''null'' then Inr Null
      else if b = ''{\"id\":\"a\",\"response\":3,\"isDisposed\":true}''
      then Inr (Obj [(''id'', Str ''a''), (''response'', Num 3), (''isDisposed'', Bool True)])
      else if b = ''{\"id\":\"a\",\"response\":3}''
      then Inr (Obj [(''id'', Str ''a''), (''response'', Num 3)])
      else if b = ''{\"id\":\"a\",\"err\":\"no\"}''
      then Inr (Obj [(''id'', Str ''a''), (''err'', Str ''no'')])
      else Inl (JsError ''SyntaxError'' []))"

definition JSON_stringify0 :: "jsval \<Rightarrow> jsval + jsval" where
  "JSON_stringify0 v =
     (if v = Obj [(''pattern'', Str ''sum''), (''data'', Arr [Num 1, Num 2]), (''id'', Str ''a'')]
      then Inr (Str ''{\"pattern\":\"sum\",\"data\":[1,2],\"id\":\"a\"}'')
      else if v = Obj [(''pattern'', Str ''sum''), (''data'', Arr [Num 1, Num 2])]
      then Inr (Str ''{\"pattern\":\"sum\",\"data\":[1,2]}'')
      else Inr Undefined)"

definition env0 :: env where
  "env0 =
     \<lparr> getOptionsProp =
         (\<lambda>k. if k = ''retryAttempts'' then Some 3
              else if k = ''retryDelay'' then Some 50 else None),
       ECONNREFUSED = ''ECONNREFUSED'',
       assignPacketId =
         (\<lambda>n p. Inr \<lparr>pattern = pattern p, data = data p,
                        packet_id = replicate (Suc n) (CHR ''a'')\<rparr>),
       normalizePattern =
         (\<lambda>v. case v of Str s \<Rightarrow> Inr s | _ \<Rightarrow> Inl (JsError ''Error'' ''pattern'')),
       serialize = Inr,
       deserialize = Inr,
       JSON_parse = JSON_parse0,
       JSON_stringify = JSON_stringify0,
       callback_throws = (\<lambda>tr c v. None) \<rparr>"

text \<open>The same environment with a serializer that throws.\<close>

definition failing_env :: env where
  "failing_env = env0\<lparr>serialize := (\<lambda>v. Inl (JsError ''Error'' ''not serializable''))\<rparr>"

text \<open>The same environment with callbacks that throw.\<close>

definition throwing_env :: env where
  "throwing_env = env0\<lparr>callback_throws := (\<lambda>tr c v. Some (JsError ''Error'' ''callback''))\<rparr>"

definition sum_packet :: ReadPacket where
  "sum_packet = \<lparr>pattern = Str ''sum'', data = Arr [Num 1, Num 2]\<rparr>"

text \<open>
  A client after \<open>connect\<close> and the connect events of both handles; then after
  \<open>publish\<close> of the packet with callback 7, and after the teardown that returned; and
  after \<open>dispatchEvent\<close> of the packet instead.
\<close>

definition connected_client :: client where
  "connected_client = run env0 new_client [Connect, ConnectEvent (0, Pub), ConnectEvent (0, Sub)]"

definition sent_client :: client where
  "sent_client = snd (publish env0 connected_client sum_packet 7)"

definition cancelled_client :: client where
  "cancelled_client = fst (step env0 sent_client (Cancel (Teardown ''sum_res'' ''a'')))"

definition emitting_client :: client where
  "emitting_client = fst (step env0 connected_client (Emit sum_packet))"

section \<open>The concrete client\<close>

lemma connected_client_eq:
  "connected_client =
     \<lparr>pubClient = Some (0, Pub), subClient = Some (0, Sub), connection = Some 0,
      isExplicitlyTerminated = False, routingMap = Map.empty,
      handshakes = [\<lparr>pub_connected = True, sub_connected = True, settled = Resolved\<rparr>],
      emitted = [], acks = [], listeners = [(0, Sub)], id_calls = 0,
      trace = [CreateClient (0, Pub), CreateClient (0, Sub), AddErrorListener (0, Pub),
               AddErrorListener (0, Sub), OnMessage (0, Sub)]\<rparr>"
  by (simp add: connected_client_def run_def connect_def createClient_def handleError_def
      new_client_def act_def
      connect_event_def first_value_def Let_def)

lemma publish_sum:
  "publish env0 connected_client sum_packet 7 =
     (Some (Teardown ''sum_res'' ''a''),
      connected_client
       \<lparr>id_calls := 1, routingMap := [''a'' \<mapsto> 7],
        trace := trace connected_client @ [Subscribe (0, Sub) ''sum_res''],
        acks := [Some (SubscribeCallback ''sum''
                  (Obj [(''pattern'', Str ''sum''), (''data'', Arr [Num 1, Num 2]),
                        (''id'', Str ''a'')]))]\<rparr>)"
  by (simp add: publish_def env0_def sum_packet_def connected_client_eq obj_of_packet_def
      getResPatternName_def act_def Let_def)

lemma sent_client_eq:
  "sent_client =
     connected_client
       \<lparr>id_calls := 1, routingMap := [''a'' \<mapsto> 7],
        trace := trace connected_client @ [Subscribe (0, Sub) ''sum_res''],
        acks := [Some (SubscribeCallback ''sum''
                  (Obj [(''pattern'', Str ''sum''), (''data'', Arr [Num 1, Num 2]),
                        (''id'', Str ''a'')]))]\<rparr>"
  by (simp add: sent_client_def publish_sum)

section \<open>The retry strategy\<close>

text \<open>
  Claim C3. \<open>createRetryStrategy\<close> follows its decision table in order, for every input.
  It puts the last error on the shared error channel exactly when that error's \<open>code\<close>
  is the connection-refused code. Then: when \<open>isExplicitlyTerminated\<close> is set it returns
  \<open>undefined\<close>; otherwise, when no \<open>retryAttempts\<close> is configured (the option reads
  \<open>undefined\<close> or \<open>0\<close>, the values \<open>!\<close> takes for unset) or the attempt exceeds it, it
  returns the exhaustion \<open>Error\<close>; otherwise it returns \<open>retryDelay\<close>, \<open>0\<close> when that is
  unset. For the attempts a transport counts (from 1), exhaustion is exactly "not
  configured, or exceeded". Attempt 1 with \<open>retryAttempts\<close> 3 and \<open>retryDelay\<close> 50
  returns 50; attempt 4 with \<open>retryAttempts\<close> 3 returns an \<open>Error\<close>.
\<close>

theorem createRetryStrategy_decision_table:
  "fst (createRetryStrategy env st options) =
     (if truthy (error options) \<and> js_get (error options) ''code'' = Str (ECONNREFUSED env)
      then [error options] else [])
   \<and> (isExplicitlyTerminated st \<longrightarrow> snd (createRetryStrategy env st options) = Stop)
   \<and> (\<not> isExplicitlyTerminated st \<longrightarrow>
        getOptionsProp env ''retryAttempts'' = None
        \<or> getOptionsProp env ''retryAttempts'' = Some 0
        \<or> (\<exists>n. getOptionsProp env ''retryAttempts'' = Some n \<and> n < attempt options) \<longrightarrow>
        snd (createRetryStrategy env st options) = Exhausted ''Retry time exhausted'')
   \<and> (\<not> isExplicitlyTerminated st \<longrightarrow>
        getOptionsProp env ''retryAttempts'' = Some n \<longrightarrow> n \<noteq> 0 \<longrightarrow> attempt options \<le> n \<longrightarrow>
        snd (createRetryStrategy env st options) =
          Delay (case getOptionsProp env ''retryDelay'' of None \<Rightarrow> 0 | Some d \<Rightarrow> d))
   \<and> (\<not> isExplicitlyTerminated st \<longrightarrow> 1 \<le> attempt options \<longrightarrow>
        (snd (createRetryStrategy env st options) = Exhausted ''Retry time exhausted'') =
        (getOptionsProp env ''retryAttempts'' = None
         \<or> (\<exists>n. getOptionsProp env ''retryAttempts'' = Some n \<and> n < attempt options)))
   \<and> (\<not> isExplicitlyTerminated st \<longrightarrow> getOptionsProp env ''retryAttempts'' = Some 3 \<longrightarrow>
        getOptionsProp env ''retryDelay'' = Some 50 \<longrightarrow> attempt options = 1 \<longrightarrow>
        snd (createRetryStrategy env st options) = Delay 50)
   \<and> (\<not> isExplicitlyTerminated st \<longrightarrow> getOptionsProp env ''retryAttempts'' = Some 3 \<longrightarrow>
        attempt options = 4 \<longrightarrow>
        snd (createRetryStrategy env st options) = Exhausted ''Retry time exhausted'')"
  by (auto simp: createRetryStrategy_def split: option.splits)

theorem createRetryStrategy_decision_table_witness:
  "createRetryStrategy env0 connected_client
     \<lparr>error = Obj [(''code'', Str ''ECONNREFUSED'')], attempt = 1\<rparr> =
     ([Obj [(''code'', Str ''ECONNREFUSED'')]], Delay 50)
   \<and> createRetryStrategy env0 connected_client \<lparr>error = Undefined, attempt = 4\<rparr> =
     ([], Exhausted ''Retry time exhausted'')
   \<and> createRetryStrategy env0 (close connected_client) \<lparr>error = Undefined, attempt = 1\<rparr> =
     ([], Stop)"
  using createRetryStrategy_decision_table
      [where env = env0 and st = connected_client and n = 3
         and options = "\<lparr>error = Obj [(''code'', Str ''ECONNREFUSED'')], attempt = 1\<rparr>"]
    createRetryStrategy_decision_table
      [where env = env0 and st = connected_client and n = 3
         and options = "\<lparr>error = Undefined, attempt = 4\<rparr>"]
    createRetryStrategy_decision_table
      [where env = env0 and st = "close connected_client" and n = 3
         and options = "\<lparr>error = Undefined, attempt = 1\<rparr>"]
  by (simp add: prod_eq_iff env0_def connected_client_eq close_def act_def)

section \<open>The response router\<close>

text \<open>
  Claim C2. For every inbound buffer that deserializes to \<open>{id, err, response,
  isDisposed}\<close> (\<open>JSON.parse\<close> and the deserializer return, and the value can be
  destructured), the router looks \<open>id\<close> up in the routing table. With no callback
  registered it returns and the state is as before. With one registered, and
  \<open>isDisposed\<close> truthy or an error present (\<open>err\<close> truthy, the test of the source), it
  calls the callback exactly once with \<open>{err, response, isDisposed: true}\<close>; otherwise it
  calls it exactly once with \<open>{err, response}\<close>, an object with no \<open>isDisposed\<close> field.
  Nothing else changes, and the router returns unless that one call throws.
\<close>

theorem createResponseCallback_routes:
  assumes "JSON_parse env buffer = Inr packet"
    and "deserialize env packet = Inr d"
    and "d \<noteq> Undefined" and "d \<noteq> Null"
  shows "(routing_get (routingMap st) (js_get d ''id'') = None \<longrightarrow>
           createResponseCallback env st channel buffer = (st, None))
       \<and> (\<forall>callback. routing_get (routingMap st) (js_get d ''id'') = Some callback \<longrightarrow>
           (truthy (js_get d ''isDisposed'') \<or> truthy (js_get d ''err'') \<longrightarrow>
              createResponseCallback env st channel buffer =
                (st\<lparr>trace := trace st @
                  [Callback callback
                     (Obj [(''err'', js_get d ''err''), (''response'', js_get d ''response''),
                           (''isDisposed'', Bool True)])]\<rparr>,
                 callback_throws env (trace st) callback
                     (Obj [(''err'', js_get d ''err''), (''response'', js_get d ''response''),
                           (''isDisposed'', Bool True)])))
         \<and> (\<not> truthy (js_get d ''isDisposed'') \<and> \<not> truthy (js_get d ''err'') \<longrightarrow>
              createResponseCallback env st channel buffer =
                (st\<lparr>trace := trace st @
                  [Callback callback
                     (Obj [(''err'', js_get d ''err''), (''response'', js_get d ''response'')])]\<rparr>,
                 callback_throws env (trace st) callback
                     (Obj [(''err'', js_get d ''err''), (''response'', js_get d ''response'')]))))"
  using assms by (simp add: createResponseCallback_def destructure_def invoke_def act_def)

theorem createResponseCallback_routes_witness:
  "createResponseCallback env0 sent_client ''sum_res''
       ''{\"id\":\"a\",\"response\":3,\"isDisposed\":true}'' =
     (sent_client\<lparr>trace := trace sent_client @
       [Callback 7 (Obj [(''err'', Undefined), (''response'', Num 3),
                         (''isDisposed'', Bool True)])]\<rparr>, None)
   \<and> createResponseCallback env0 sent_client ''sum_res'' ''{\"id\":\"a\",\"err\":\"no\"}'' =
     (sent_client\<lparr>trace := trace sent_client @
       [Callback 7 (Obj [(''err'', Str ''no''), (''response'', Undefined),
                         (''isDisposed'', Bool True)])]\<rparr>, None)
   \<and> createResponseCallback env0 sent_client ''sum_res'' ''{\"id\":\"a\",\"response\":3}'' =
     (sent_client\<lparr>trace := trace sent_client @
       [Callback 7 (Obj [(''err'', Undefined), (''response'', Num 3)])]\<rparr>, None)
   \<and> createResponseCallback env0 connected_client ''sum_res'' ''{\"id\":\"a\",\"response\":3}'' =
     (connected_client, None)"
  using createResponseCallback_routes
      [where env = env0 and st = sent_client and channel = "''sum_res''"
         and buffer = "''{\"id\":\"a\",\"response\":3,\"isDisposed\":true}''"
         and packet = "Obj [(''id'', Str ''a''), (''response'', Num 3), (''isDisposed'', Bool True)]"
         and d = "Obj [(''id'', Str ''a''), (''response'', Num 3), (''isDisposed'', Bool True)]"]
    createResponseCallback_routes
      [where env = env0 and st = sent_client and channel = "''sum_res''"
         and buffer = "''{\"id\":\"a\",\"err\":\"no\"}''"
         and packet = "Obj [(''id'', Str ''a''), (''err'', Str ''no'')]"
         and d = "Obj [(''id'', Str ''a''), (''err'', Str ''no'')]"]
    createResponseCallback_routes
      [where env = env0 and st = sent_client and channel = "''sum_res''"
         and buffer = "''{\"id\":\"a\",\"response\":3}''"
         and packet = "Obj [(''id'', Str ''a''), (''response'', Num 3)]"
         and d = "Obj [(''id'', Str ''a''), (''response'', Num 3)]"]
    createResponseCallback_routes
      [where env = env0 and st = connected_client and channel = "''sum_res''"
         and buffer = "''{\"id\":\"a\",\"response\":3}''"
         and packet = "Obj [(''id'', Str ''a''), (''response'', Num 3)]"
         and d = "Obj [(''id'', Str ''a''), (''response'', Num 3)]"]
  by (simp add: env0_def JSON_parse0_def routing_get_def sent_client_eq connected_client_eq)

section \<open>The synchronous error path of publish\<close>

text \<open>
  Claim C5. If building or serializing the packet inside \<open>publish\<close> throws \<open>e\<close>, the
  callback of the call is invoked, within \<open>publish\<close>, with the error result \<open>{err: e}\<close>,
  and no network action occurs: that call is the only action added to the trace
  (nothing is subscribed, nothing is published) and the transport holds no new
  acknowledgment callback.
\<close>

theorem publish_build_error:
  assumes "build_error env (id_calls st) partialPacket = Some e"
  shows "publish env st partialPacket callback =
           (None, st\<lparr>id_calls := Suc (id_calls st),
                     trace := trace st @ [Callback callback (Obj [(''err'', e)])]\<rparr>)"
  using assms
  by (auto simp: publish_def build_error_def caught_def act_def Let_def split: sum.splits)

theorem publish_build_error_witness:
  "publish failing_env connected_client sum_packet 7 =
     (None, connected_client\<lparr>id_calls := 1,
        trace := trace connected_client @
          [Callback 7 (Obj [(''err'', JsError ''Error'' ''not serializable'')])]\<rparr>)"
  using publish_build_error
      [where env = failing_env and st = connected_client and partialPacket = sum_packet
         and callback = 7 and e = "JsError ''Error'' ''not serializable''"]
  by (simp add: build_error_def failing_env_def env0_def sum_packet_def connected_client_eq)

text \<open>
  Claim C9. When building or serializing the packet throws inside \<open>publish\<close>, the
  function returns \<open>undefined\<close> and not a teardown function, and no routing table entry
  was created: the table is the one before the call.
\<close>

theorem publish_build_error_returns_undefined:
  assumes "build_error env (id_calls st) partialPacket = Some e"
  shows "fst (publish env st partialPacket callback) = None
       \<and> routingMap (snd (publish env st partialPacket callback)) = routingMap st"
  using assms
  by (auto simp: publish_def build_error_def caught_def act_def Let_def split: sum.splits)

theorem publish_build_error_returns_undefined_witness:
  "fst (publish failing_env sent_client sum_packet 8) = None
   \<and> routingMap (snd (publish failing_env sent_client sum_packet 8)) = [''a'' \<mapsto> 7]"
  using publish_build_error_returns_undefined
      [where env = failing_env and st = sent_client and partialPacket = sum_packet
         and callback = 8 and e = "JsError ''Error'' ''not serializable''"]
  by (simp add: build_error_def failing_env_def env0_def sum_packet_def sent_client_eq
      connected_client_eq)

section \<open>Subscribe before publish\<close>

lemma publications_act:
  "publications (act as st) = publications st @ filter is_Publish as"
  by (simp add: publications_def act_def)

lemma createResponseCallback_publications:
  "publications (fst (createResponseCallback env st channel buffer)) = publications st"
  by (auto simp: createResponseCallback_def invoke_def publications_def act_def
      split: sum.splits option.splits)

lemma message_event_publications:
  "publications (fst (message_event env k st channel buffer)) = publications st"
proof (induction k arbitrary: st)
  case 0
  show ?case by simp
next
  case (Suc k)
  obtain sta r where c: "createResponseCallback env st channel buffer = (sta, r)"
    by (cases "createResponseCallback env st channel buffer")
  have p: "publications sta = publications st"
    using createResponseCallback_publications [of env st channel buffer] c by simp
  show ?case
  proof (cases r)
    case None
    then show ?thesis using c p Suc.IH [of sta] by simp
  next
    case (Some e)
    then show ?thesis using c p by simp
  qed
qed

lemma subject_error_publications:
  "publications (subject_error n err st) = publications st"
  by (simp add: subject_error_def publications_def act_def Let_def)

lemma retry_event_publications:
  "publications (retry_event env st n options) = publications st"
  by (simp add: retry_event_def createRetryStrategy_def subject_error_publications)

lemma connect_publications: "publications (snd (connect st)) = publications st"
  by (simp add: connect_def createClient_def handleError_def publications_def act_def Let_def)

lemma close_publications: "publications (close st) = publications st"
  by (simp add: close_def publications_def act_def quit_def split: option.splits)

lemma publish_publications:
  "publications (snd (publish env st p callback)) = publications st"
  by (simp add: publish_def publications_def act_def caught_def Let_def
      split: sum.splits option.splits)

lemma call_teardown_publications:
  "call_teardown st td = Inr st1 \<Longrightarrow> publications st1 = publications st"
  by (cases td) (auto simp: publications_def act_def split: option.splits)

lemma connect_event_publications:
  "publications (connect_event st h) = publications st"
  by (simp add: connect_event_def first_value_def publications_def act_def Let_def
      split: option.splits)

lemma step_publications:
  assumes "publications (fst (step env st i)) \<noteq> publications st"
  shows "(\<exists>p. i = Emit p)
       \<or> (\<exists>k err pat serializedPacket. i = AckEvent k err \<and> \<not> truthy err
            \<and> k < length (acks st)
            \<and> acks st ! k = Some (SubscribeCallback pat serializedPacket))"
proof (cases i)
  case Connect
  then show ?thesis using assms by (simp add: connect_publications)
next
  case Close
  then show ?thesis using assms by (simp add: close_publications)
next
  case (Send p callback)
  then show ?thesis using assms by (simp add: publish_publications)
next
  case (Cancel td)
  then show ?thesis using assms
    by (auto simp: call_teardown_publications split: sum.splits)
next
  case (Emit p)
  then show ?thesis by simp
next
  case (ConnectEvent h)
  then show ?thesis using assms by (simp add: connect_event_publications)
next
  case (ErrorEvent h err)
  then show ?thesis using assms by (simp add: error_listener_def publications_act)
next
  case (RetryEvent h options)
  then show ?thesis using assms by (simp add: retry_event_publications)
next
  case (MessageEvent h channel buffer)
  then show ?thesis using assms by (simp add: message_event_publications)
next
  case (AckEvent k err)
  then show ?thesis using assms
    by (auto simp: ack_event_def subscribe_callback_def publish_callback_def
        publications_def act_def Let_def
        split: if_splits option.splits ack_callback.splits sum.splits)
qed


lemma publish_reaches_network:
  assumes "publish env st partialPacket callback = (Some td, st1)"
  shows "\<exists>h packet pat serializedPacket.
           subClient st = Some h
         \<and> assignPacketId env (id_calls st) partialPacket = Inr packet
         \<and> normalizePattern env (pattern partialPacket) = Inr pat
         \<and> serialize env (obj_of_packet packet) = Inr serializedPacket
         \<and> td = Teardown (getResPatternName pat) (packet_id packet)
         \<and> trace st1 = trace st @ [Subscribe h (getResPatternName pat)]
         \<and> acks st1 = acks st @ [Some (SubscribeCallback pat serializedPacket)]
         \<and> routingMap st1 = (routingMap st)(packet_id packet \<mapsto> callback)"
  using assms
  by (auto simp: publish_def caught_def act_def Let_def split: sum.splits option.splits)

text \<open>
  Claim C1. A \<open>send\<close> that reaches the network (\<open>publish\<close> returns a teardown) has
  registered the callback and its one action is the \<open>subscribe\<close> to the response
  channel, whose acknowledgment callback the transport now holds. A turn of the event
  loop publishes only if it is \<open>dispatchEvent\<close> or the acknowledgment, without error, of
  a \<open>subscribe\<close> callback still held. When the acknowledgment carries an error, the turn
  only drops the callback: nothing is published, then or later, and the routing table
  keeps the entry. When it carries none, the serialized packet is published to the ack
  channel.
\<close>

theorem send_subscribes_then_publishes:
  "(publish env st partialPacket callback = (Some td, sta) \<longrightarrow>
      (\<exists>h packet pat serializedPacket.
           subClient st = Some h
         \<and> assignPacketId env (id_calls st) partialPacket = Inr packet
         \<and> normalizePattern env (pattern partialPacket) = Inr pat
         \<and> serialize env (obj_of_packet packet) = Inr serializedPacket
         \<and> td = Teardown (getResPatternName pat) (packet_id packet)
         \<and> trace sta = trace st @ [Subscribe h (getResPatternName pat)]
         \<and> acks sta = acks st @ [Some (SubscribeCallback pat serializedPacket)]
         \<and> routingMap sta = (routingMap st)(packet_id packet \<mapsto> callback)))
   \<and> (publications (fst (step env stb i)) \<noteq> publications stb \<longrightarrow>
        (\<exists>p. i = Emit p)
        \<or> (\<exists>j err pat serializedPacket. i = AckEvent j err \<and> \<not> truthy err
             \<and> j < length (acks stb)
             \<and> acks stb ! j = Some (SubscribeCallback pat serializedPacket)))
   \<and> (k < length (acks stb) \<longrightarrow> acks stb ! k = Some (SubscribeCallback pata sera) \<longrightarrow>
        (truthy erra \<longrightarrow>
           step env stb (AckEvent k erra) = (stb\<lparr>acks := (acks stb)[k := None]\<rparr>, None))
        \<and> (\<not> truthy erra \<longrightarrow> pubClient stb = Some hb \<longrightarrow>
             JSON_stringify env sera = Inr payload \<longrightarrow>
             step env stb (AckEvent k erra) =
               (stb\<lparr>acks := (acks stb)[k := None],
                    trace := trace stb @ [Publish hb (getAckPatternName pata) payload]\<rparr>,
                None)))"
proof (intro conjI impI)
  assume "publish env st partialPacket callback = (Some td, sta)"
  then show "\<exists>h packet pat serializedPacket.
           subClient st = Some h
         \<and> assignPacketId env (id_calls st) partialPacket = Inr packet
         \<and> normalizePattern env (pattern partialPacket) = Inr pat
         \<and> serialize env (obj_of_packet packet) = Inr serializedPacket
         \<and> td = Teardown (getResPatternName pat) (packet_id packet)
         \<and> trace sta = trace st @ [Subscribe h (getResPatternName pat)]
         \<and> acks sta = acks st @ [Some (SubscribeCallback pat serializedPacket)]
         \<and> routingMap sta = (routingMap st)(packet_id packet \<mapsto> callback)"
    by (rule publish_reaches_network)
next
  assume "publications (fst (step env stb i)) \<noteq> publications stb"
  then show "(\<exists>p. i = Emit p)
        \<or> (\<exists>j err pat serializedPacket. i = AckEvent j err \<and> \<not> truthy err
             \<and> j < length (acks stb)
             \<and> acks stb ! j = Some (SubscribeCallback pat serializedPacket))"
    by (rule step_publications)
next
  assume "k < length (acks stb)" "acks stb ! k = Some (SubscribeCallback pata sera)"
    "truthy erra"
  then show "step env stb (AckEvent k erra) = (stb\<lparr>acks := (acks stb)[k := None]\<rparr>, None)"
    by (simp add: ack_event_def subscribe_callback_def)
next
  assume "k < length (acks stb)" "acks stb ! k = Some (SubscribeCallback pata sera)"
    "\<not> truthy erra" "pubClient stb = Some hb" "JSON_stringify env sera = Inr payload"
  then show "step env stb (AckEvent k erra) =
               (stb\<lparr>acks := (acks stb)[k := None],
                    trace := trace stb @ [Publish hb (getAckPatternName pata) payload]\<rparr>,
                None)"
    by (simp add: ack_event_def subscribe_callback_def act_def)
qed

theorem send_subscribes_then_publishes_witness:
  "trace sent_client = trace connected_client @ [Subscribe (0, Sub) ''sum_res'']
   \<and> step env0 sent_client (AckEvent 0 (Str ''ERR'')) = (sent_client\<lparr>acks := [None]\<rparr>, None)
   \<and> step env0 sent_client (AckEvent 0 Null) =
       (sent_client\<lparr>acks := [None],
          trace := trace sent_client @
            [Publish (0, Pub) ''sum_ack''
               (Str ''{\"pattern\":\"sum\",\"data\":[1,2],\"id\":\"a\"}'')]\<rparr>, None)"
  using send_subscribes_then_publishes
      [where env = env0 and st = connected_client and partialPacket = sum_packet
         and callback = 7 and td = "Teardown ''sum_res'' ''a''" and sta = sent_client
         and stb = sent_client and k = 0 and pata = "''sum''" and erra = "Str ''ERR''"
         and sera = "Obj [(''pattern'', Str ''sum''), (''data'', Arr [Num 1, Num 2]),
                        (''id'', Str ''a'')]"]
    send_subscribes_then_publishes
      [where env = env0 and stb = sent_client and k = 0 and pata = "''sum''" and erra = Null
         and hb = "(0, Pub)"
         and payload = "Str ''{\"pattern\":\"sum\",\"data\":[1,2],\"id\":\"a\"}''"
         and sera = "Obj [(''pattern'', Str ''sum''), (''data'', Arr [Num 1, Num 2]),
                        (''id'', Str ''a'')]"]
  by (simp add: publish_sum sent_client_eq connected_client_eq env0_def JSON_stringify0_def
      getAckPatternName_def getResPatternName_def)


section \<open>What leaves the message handler\<close>

lemma createResponseCallback_early:
  "JSON_parse env buffer = Inl e \<Longrightarrow>
     createResponseCallback env st channel buffer = (st, Some e)"
  "JSON_parse env buffer = Inr packet \<Longrightarrow> deserialize env packet = Inl e \<Longrightarrow>
     createResponseCallback env st channel buffer = (st, Some e)"
  "JSON_parse env buffer = Inr packet \<Longrightarrow> deserialize env packet = Inr d \<Longrightarrow>
     d = Undefined \<or> d = Null \<Longrightarrow>
     createResponseCallback env st channel buffer = (st, Some TypeError)"
  by (auto simp: createResponseCallback_def destructure_def)

lemma createResponseCallback_late:
  assumes "JSON_parse env buffer = Inr packet"
    and "deserialize env packet = Inr d"
    and "d \<noteq> Undefined" and "d \<noteq> Null"
  shows "snd (createResponseCallback env st channel buffer) =
     (case routing_get (routingMap st) (js_get d ''id'') of
        None \<Rightarrow> None
      | Some callback \<Rightarrow> callback_throws env (trace st) callback (delivered d))"
  using assms
  by (simp add: createResponseCallback_def destructure_def invoke_def delivered_def
      split: option.splits)

lemma message_event_returns:
  assumes "JSON_parse env buffer = Inr packet"
    and "deserialize env packet = Inr d"
    and "d \<noteq> Undefined" and "d \<noteq> Null"
    and "\<forall>tr callback v. callback_throws env tr callback v = None"
  shows "snd (message_event env k st channel buffer) = None"
proof (induction k arbitrary: st)
  case 0
  show ?case by simp
next
  case (Suc k)
  have "snd (createResponseCallback env st channel buffer) = None"
    using createResponseCallback_late [OF assms(1-4), of st channel] assms(5)
    by (simp split: option.splits)
  then obtain sta where "createResponseCallback env st channel buffer = (sta, None)"
    by (cases "createResponseCallback env st channel buffer") simp
  then show ?case using Suc.IH by simp
qed

text \<open>
  Claim C8, as stated, fails: the handler has no \<open>try\<close>. On the buffer \<open>oops\<close>, which
  is not JSON, \<open>JSON.parse\<close> throws and the SyntaxError leaves the handler and the turn
  of the event loop; the state is as before, so no callback and no promise has received
  it. On the buffer \<open>null\<close> the destructuring raises a TypeError in the same way.
\<close>

theorem createResponseCallback_raises_counterexample:
  "createResponseCallback env0 sent_client ''sum_res'' ''oops'' =
     (sent_client, Some (JsError ''SyntaxError'' []))
   \<and> step env0 sent_client (MessageEvent (0, Sub) ''sum_res'' ''oops'') =
       (sent_client, Some (JsError ''SyntaxError'' []))
   \<and> step env0 sent_client (MessageEvent (0, Sub) ''sum_res'' ''null'') =
       (sent_client, Some TypeError)"
  by (simp add: createResponseCallback_def env0_def JSON_parse0_def sent_client_eq
      connected_client_eq destructure_def numeral_eq_Suc)

text \<open>
  Claim C8, amended. The message handler raises exactly when \<open>JSON.parse\<close> throws on the
  buffer, when the deserializer throws, when the deserialized value is \<open>null\<close> or
  \<open>undefined\<close> (a TypeError), or when the registered callback it calls throws; the
  exception is the one thrown, and it leaves the message event too. In the first three
  cases the state is as it was: the failure is reported on no callback and no promise.
  For every other buffer, whatever the shape of the value it deserializes to, the
  handler completes without raising, and so does the message event when no call of a
  callback throws.
\<close>

theorem createResponseCallback_raises_iff:
  "(snd (createResponseCallback env st channel buffer) = Some e) =
     (JSON_parse env buffer = Inl e
      \<or> (\<exists>packet. JSON_parse env buffer = Inr packet \<and>
           (deserialize env packet = Inl e
            \<or> (\<exists>d. deserialize env packet = Inr d \<and>
                 ((d = Undefined \<or> d = Null) \<and> e = TypeError
                  \<or> d \<noteq> Undefined \<and> d \<noteq> Null \<and>
                    (\<exists>callback. routing_get (routingMap st) (js_get d ''id'') = Some callback
                       \<and> callback_throws env (trace st) callback (delivered d) = Some e))))))
   \<and> (JSON_parse env buffer = Inl e \<longrightarrow>
        createResponseCallback env st channel buffer = (st, Some e))
   \<and> (JSON_parse env buffer = Inr packet \<longrightarrow> deserialize env packet = Inl e \<longrightarrow>
        createResponseCallback env st channel buffer = (st, Some e))
   \<and> (JSON_parse env buffer = Inr packet \<longrightarrow> deserialize env packet = Inr d \<longrightarrow>
        d = Undefined \<or> d = Null \<longrightarrow>
        createResponseCallback env st channel buffer = (st, Some TypeError))
   \<and> (JSON_parse env buffer = Inr packet \<longrightarrow> deserialize env packet = Inr d \<longrightarrow>
        d \<noteq> Undefined \<longrightarrow> d \<noteq> Null \<longrightarrow>
        (routing_get (routingMap st) (js_get d ''id'') = None
         \<or> (\<exists>callback. routing_get (routingMap st) (js_get d ''id'') = Some callback
              \<and> callback_throws env (trace st) callback (delivered d) = None)) \<longrightarrow>
        snd (createResponseCallback env st channel buffer) = None)
   \<and> (JSON_parse env buffer = Inr packet \<longrightarrow> deserialize env packet = Inr d \<longrightarrow>
        d \<noteq> Undefined \<longrightarrow> d \<noteq> Null \<longrightarrow>
        (\<forall>tr callback v. callback_throws env tr callback v = None) \<longrightarrow>
        snd (step env st (MessageEvent h channel buffer)) = None)
   \<and> (snd (createResponseCallback env st channel buffer) = Some e \<longrightarrow>
        message_event env (Suc k) st channel buffer =
          (fst (createResponseCallback env st channel buffer), Some e))"
proof (intro conjI impI)
  show "(snd (createResponseCallback env st channel buffer) = Some e) =
     (JSON_parse env buffer = Inl e
      \<or> (\<exists>packet. JSON_parse env buffer = Inr packet \<and>
           (deserialize env packet = Inl e
            \<or> (\<exists>d. deserialize env packet = Inr d \<and>
                 ((d = Undefined \<or> d = Null) \<and> e = TypeError
                  \<or> d \<noteq> Undefined \<and> d \<noteq> Null \<and>
                    (\<exists>callback. routing_get (routingMap st) (js_get d ''id'') = Some callback
                       \<and> callback_throws env (trace st) callback (delivered d) = Some e))))))"
  proof (cases "JSON_parse env buffer")
    case (Inl x)
    then show ?thesis using createResponseCallback_early(1) [OF Inl, of st channel] by auto
  next
    case p: (Inr packet)
    show ?thesis
    proof (cases "deserialize env packet")
      case (Inl x)
      then show ?thesis
        using p createResponseCallback_early(2) [OF p Inl, of st channel] by auto
    next
      case d: (Inr d)
      show ?thesis
      proof (cases "d = Undefined \<or> d = Null")
        case True
        then show ?thesis
          using p d createResponseCallback_early(3) [OF p d True, of st channel] by auto
      next
        case False
        then have "snd (createResponseCallback env st channel buffer) =
            (case routing_get (routingMap st) (js_get d ''id'') of
               None \<Rightarrow> None
             | Some callback \<Rightarrow> callback_throws env (trace st) callback (delivered d))"
          using createResponseCallback_late [OF p d] by simp
        then show ?thesis using p d False by (auto split: option.splits)
      qed
    qed
  qed
next
  assume "JSON_parse env buffer = Inl e"
  then show "createResponseCallback env st channel buffer = (st, Some e)"
    by (rule createResponseCallback_early(1))
next
  assume "JSON_parse env buffer = Inr packet" "deserialize env packet = Inl e"
  then show "createResponseCallback env st channel buffer = (st, Some e)"
    by (rule createResponseCallback_early(2))
next
  assume "JSON_parse env buffer = Inr packet" "deserialize env packet = Inr d"
    "d = Undefined \<or> d = Null"
  then show "createResponseCallback env st channel buffer = (st, Some TypeError)"
    by (rule createResponseCallback_early(3))
next
  assume a: "JSON_parse env buffer = Inr packet" "deserialize env packet = Inr d"
    "d \<noteq> Undefined" "d \<noteq> Null"
    and r: "routing_get (routingMap st) (js_get d ''id'') = None
         \<or> (\<exists>callback. routing_get (routingMap st) (js_get d ''id'') = Some callback
              \<and> callback_throws env (trace st) callback (delivered d) = None)"
  show "snd (createResponseCallback env st channel buffer) = None"
    using createResponseCallback_late [OF a, of st channel] r by auto
next
  assume a: "JSON_parse env buffer = Inr packet" "deserialize env packet = Inr d"
    "d \<noteq> Undefined" "d \<noteq> Null"
    and n: "\<forall>tr callback v. callback_throws env tr callback v = None"
  show "snd (step env st (MessageEvent h channel buffer)) = None"
    using message_event_returns [OF a n] by simp
next
  assume "snd (createResponseCallback env st channel buffer) = Some e"
  then show "message_event env (Suc k) st channel buffer =
      (fst (createResponseCallback env st channel buffer), Some e)"
    by (cases "createResponseCallback env st channel buffer") simp
qed

theorem createResponseCallback_raises_iff_witness:
  "snd (createResponseCallback env0 sent_client ''sum_res''
       ''{\"id\":\"a\",\"response\":3}'') = None
   \<and> snd (step env0 sent_client
        (MessageEvent (0, Sub) ''sum_res'' ''{\"id\":\"a\",\"response\":3}'')) = None
   \<and> snd (createResponseCallback throwing_env sent_client ''sum_res''
       ''{\"id\":\"a\",\"response\":3}'') = Some (JsError ''Error'' ''callback'')"
  using createResponseCallback_raises_iff
      [where env = env0 and st = sent_client and channel = "''sum_res''"
         and buffer = "''{\"id\":\"a\",\"response\":3}''" and h = "(0, Sub)"
         and packet = "Obj [(''id'', Str ''a''), (''response'', Num 3)]"
         and d = "Obj [(''id'', Str ''a''), (''response'', Num 3)]"]
    createResponseCallback_raises_iff
      [where env = throwing_env and st = sent_client and channel = "''sum_res''"
         and buffer = "''{\"id\":\"a\",\"response\":3}''"
         and e = "JsError ''Error'' ''callback''"]
  by (simp add: throwing_env_def env0_def JSON_parse0_def routing_get_def sent_client_eq
      connected_client_eq)

section \<open>Events without a response\<close>

lemma emitting_client_eq:
  "emitting_client =
     connected_client
       \<lparr>trace := trace connected_client @
          [Publish (0, Pub) ''sum'' (Str ''{\"pattern\":\"sum\",\"data\":[1,2]}'')],
        emitted := [Pending], acks := [Some (PublishCallback 0)]\<rparr>"
  by (simp add: emitting_client_def dispatchEvent_def env0_def sum_packet_def
      connected_client_eq obj_of_read_def JSON_stringify0_def act_def Let_def)

text \<open>
  Claim C7. \<open>dispatchEvent\<close> publishes the serialized packet on the channel that is the
  normalized pattern itself, with no suffix (when the pattern and the packet could be
  built and the outbound handle exists), and returns a new, pending promise. It creates
  no routing table entry and calls \<open>assignPacketId\<close> not at all, on every path. The
  promise resolves when the acknowledgment of that \<open>publish\<close> fires without error, and
  is rejected with the error when the acknowledgment carries one.
\<close>

theorem dispatchEvent_publishes:
  "(normalizePattern env (pattern packet) = Inr pat \<longrightarrow>
    serialize env (obj_of_read packet) = Inr serializedPacket \<longrightarrow>
    pubClient st = Some h \<longrightarrow>
    JSON_stringify env serializedPacket = Inr payload \<longrightarrow>
      dispatchEvent env st packet =
        Inr (length (emitted st),
             st\<lparr>trace := trace st @ [Publish h pat payload],
                emitted := emitted st @ [Pending],
                acks := acks st @ [Some (PublishCallback (length (emitted st)))]\<rparr>))
   \<and> routingMap (fst (step env st (Emit packet))) = routingMap st
   \<and> id_calls (fst (step env st (Emit packet))) = id_calls st
   \<and> (k < length (acks stb) \<longrightarrow> acks stb ! k = Some (PublishCallback p) \<longrightarrow>
        p < length (emitted stb) \<longrightarrow> emitted stb ! p = Pending \<longrightarrow>
        emitted (fst (step env stb (AckEvent k err))) ! p =
          (if truthy err then Rejected err else Resolved))"
  by (auto simp: dispatchEvent_def act_def ack_event_def publish_callback_def settle_def
      Let_def split: sum.splits option.splits)

theorem dispatchEvent_publishes_witness:
  "dispatchEvent env0 connected_client sum_packet = Inr (0, emitting_client)
   \<and> emitted (fst (step env0 emitting_client (AckEvent 0 Null))) ! 0 = Resolved
   \<and> emitted (fst (step env0 emitting_client (AckEvent 0 (Str ''ERR'')))) ! 0 =
       Rejected (Str ''ERR'')"
  using dispatchEvent_publishes
      [where env = env0 and st = connected_client and packet = sum_packet and pat = "''sum''"
         and serializedPacket = "Obj [(''pattern'', Str ''sum''), (''data'', Arr [Num 1, Num 2])]"
         and h = "(0, Pub)" and payload = "Str ''{\"pattern\":\"sum\",\"data\":[1,2]}''"
         and stb = emitting_client and k = 0 and p = 0 and err = Null]
    dispatchEvent_publishes
      [where env = env0 and stb = emitting_client and k = 0 and p = 0 and err = "Str ''ERR''"]
  by (simp add: emitting_client_eq connected_client_eq env0_def sum_packet_def
      obj_of_read_def JSON_stringify0_def)

section \<open>Runs of the event loop\<close>

lemma createResponseCallback_only_trace:
  "fst (createResponseCallback env st channel buffer) =
     st\<lparr>trace := trace (fst (createResponseCallback env st channel buffer))\<rparr>"
  by (auto simp: createResponseCallback_def invoke_def act_def
      split: sum.splits option.splits)

lemma message_event_only_trace:
  "fst (message_event env k st channel buffer) =
     st\<lparr>trace := trace (fst (message_event env k st channel buffer))\<rparr>"
proof (induction k arbitrary: st)
  case 0
  show ?case by simp
next
  case (Suc k)
  obtain sta r where c: "createResponseCallback env st channel buffer = (sta, r)"
    by (cases "createResponseCallback env st channel buffer")
  have t: "sta = st\<lparr>trace := trace sta\<rparr>"
    using createResponseCallback_only_trace [of env st channel buffer] c by simp
  show ?case
  proof (cases r)
    case (Some e)
    then show ?thesis using c t by simp
  next
    case None
    have "fst (message_event env k sta channel buffer) =
        sta\<lparr>trace := trace (fst (message_event env k sta channel buffer))\<rparr>"
      by (rule Suc.IH)
    then have "fst (message_event env k sta channel buffer) =
        st\<lparr>trace := trace (fst (message_event env k sta channel buffer))\<rparr>"
      using t by (metis client.surjective client.update_convs(11))
    then show ?thesis using c None by simp
  qed
qed

lemma run_Nil: "run env st [] = st"
  by (simp add: run_def)

lemma run_Cons: "run env st (i # ins) = run env (fst (step env st i)) ins"
  by (simp add: run_def)

lemma run_snoc: "run env st (ins @ [i]) = fst (step env (run env st ins) i)"
  by (simp add: run_def)

lemma run_invariant:
  assumes "P st" and "\<And>s i. P s \<Longrightarrow> P (fst (step env s i))"
  shows "P (run env st ins)"
  using assms(1)
proof (induction ins arbitrary: st)
  case Nil
  then show ?case by (simp add: run_Nil)
next
  case (Cons i ins)
  then show ?case using assms(2) by (simp add: run_Cons)
qed

lemma retry_event_cases:
  "retry_event env st n options = st
   \<or> retry_event env st n options = subject_error n (error options) st"
  by (simp add: retry_event_def createRetryStrategy_def)

lemma subject_error_isExplicitlyTerminated:
  "isExplicitlyTerminated (subject_error n err st) = isExplicitlyTerminated st"
  by (simp add: subject_error_def act_def Let_def)

lemma step_isExplicitlyTerminated:
  "isExplicitlyTerminated (fst (step env st i)) = (isExplicitlyTerminated st \<or> i = Close)"
proof (cases i)
  case (MessageEvent h channel buffer)
  then show ?thesis
    using arg_cong [OF message_event_only_trace, where f = isExplicitlyTerminated]
    by simp
next
  case (RetryEvent h options)
  then show ?thesis
    using retry_event_cases [of env st "fst h" options]
    by (auto simp: subject_error_isExplicitlyTerminated)
next
  case (Cancel td)
  then show ?thesis
    by (cases td) (auto simp: act_def split: option.splits)
next
  case (AckEvent k err)
  then show ?thesis
    by (auto simp: ack_event_def subscribe_callback_def publish_callback_def act_def Let_def
        split: option.splits ack_callback.splits sum.splits)
qed (auto simp: connect_def createClient_def handleError_def close_def publish_def caught_def dispatchEvent_def
      connect_event_def first_value_def error_listener_def act_def Let_def
      split: sum.splits option.splits)

text \<open>
  Claim C10. \<open>close\<close> sets \<open>isExplicitlyTerminated\<close> and no method and no event resets
  it: after \<open>close\<close>, whatever turns of the event loop follow (a later \<open>connect\<close>
  among them), the flag is set and the retry strategy returns \<open>undefined\<close>, for every
  attempt count, last error and configured \<open>retryAttempts\<close>.
\<close>

theorem closed_client_never_retries:
  "isExplicitlyTerminated (close st)
   \<and> isExplicitlyTerminated (run env (close st) ins)
   \<and> snd (createRetryStrategy env (run env (close st) ins) options) = Stop"
proof -
  have c: "isExplicitlyTerminated (close st)"
    by (simp add: close_def act_def)
  have "isExplicitlyTerminated (run env (close st) ins)"
    by (rule run_invariant [where P = isExplicitlyTerminated, OF c])
       (simp add: step_isExplicitlyTerminated)
  then show ?thesis using c by (simp add: createRetryStrategy_def)
qed

theorem closed_client_never_retries_witness:
  "snd (createRetryStrategy env0
      (run env0 (close connected_client) [Connect, ConnectEvent (1, Pub)])
      \<lparr>error = Undefined, attempt = 1\<rparr>) = Stop"
  using closed_client_never_retries
      [where env = env0 and st = connected_client and ins = "[Connect, ConnectEvent (1, Pub)]"
         and options = "\<lparr>error = Undefined, attempt = 1\<rparr>"]
  by simp

section \<open>Teardown\<close>

lemma subject_error_routingMap:
  "routingMap (subject_error n err st) = routingMap st"
  by (simp add: subject_error_def act_def Let_def)

lemma step_routingMap:
  assumes "routingMap st ident = None" and "\<not> registers env st i ident"
  shows "routingMap (fst (step env st i)) ident = None"
proof (cases i)
  case (MessageEvent h channel buffer)
  then show ?thesis
    using arg_cong [OF message_event_only_trace, where f = routingMap] assms(1)
    by simp
next
  case (RetryEvent h options)
  then show ?thesis
    using retry_event_cases [of env st "fst h" options] assms(1)
    by (auto simp: subject_error_routingMap)
next
  case (Cancel td)
  then show ?thesis using assms(1)
    by (cases td) (auto simp: act_def split: option.splits)
next
  case (AckEvent k err)
  then show ?thesis using assms(1)
    by (auto simp: ack_event_def subscribe_callback_def publish_callback_def act_def Let_def
        split: option.splits ack_callback.splits sum.splits)
next
  case (Send p callback)
  then show ?thesis using assms
    by (auto simp: registers_def publish_def caught_def act_def Let_def
        split: sum.splits option.splits)
qed (use assms(1) in \<open>auto simp: connect_def createClient_def handleError_def close_def dispatchEvent_def
      connect_event_def first_value_def error_listener_def act_def Let_def
      split: sum.splits option.splits\<close>)

lemma run_routingMap:
  assumes "routingMap st ident = None" and "\<not> reassigned env st ins ident"
  shows "routingMap (run env st ins) ident = None"
  using assms
proof (induction ins arbitrary: st)
  case Nil
  then show ?case by (simp add: run_Nil)
next
  case (Cons i ins)
  then show ?case by (simp add: run_Cons step_routingMap)
qed

lemma createResponseCallback_unrouted:
  assumes "JSON_parse env buffer = Inr packet" and "deserialize env packet = Inr d"
    and "js_get d ''id'' = Str ident" and "routingMap st ident = None"
  shows "createResponseCallback env st channel buffer = (st, None)"
proof -
  have "d \<noteq> Undefined" "d \<noteq> Null" using assms(3) by auto
  then show ?thesis using assms
    by (simp add: createResponseCallback_def destructure_def routing_get_def)
qed

lemma message_event_unrouted:
  assumes "createResponseCallback env st channel buffer = (st, None)"
  shows "message_event env k st channel buffer = (st, None)"
  using assms by (induction k) simp_all

lemma publish_sum_sent:
  "publish env0 connected_client sum_packet 7 = (Some (Teardown ''sum_res'' ''a''), sent_client)"
  by (simp add: publish_sum sent_client_eq)

text \<open>
  Claim C4, as stated, fails when \<open>close\<close> runs between \<open>send\<close> and the teardown: the
  teardown reads \<open>this.subClient\<close>, now \<open>null\<close>, and raises a TypeError at
  \<open>unsubscribe\<close>, before \<open>routingMap.delete\<close>. The entry stays, and after a later
  \<open>connect\<close> a response carrying the identifier is delivered to the callback.
\<close>

theorem teardown_unregisters_counterexample:
  "publish env0 connected_client sum_packet 7 = (Some (Teardown ''sum_res'' ''a''), sent_client)
   \<and> step env0 (close sent_client) (Cancel (Teardown ''sum_res'' ''a'')) =
       (close sent_client, Some TypeError)
   \<and> routingMap (run env0 sent_client [Close, Cancel (Teardown ''sum_res'' ''a'')]) ''a'' = Some 7
   \<and> last (trace (run env0 sent_client
        [Close, Cancel (Teardown ''sum_res'' ''a''), Connect,
         ConnectEvent (1, Pub), ConnectEvent (1, Sub),
         MessageEvent (1, Sub) ''sum_res'' ''{\"id\":\"a\",\"response\":3}''])) =
       Callback 7 (Obj [(''err'', Undefined), (''response'', Num 3)])"
proof (intro conjI)
  show "publish env0 connected_client sum_packet 7 =
      (Some (Teardown ''sum_res'' ''a''), sent_client)"
    by (rule publish_sum_sent)
  show "step env0 (close sent_client) (Cancel (Teardown ''sum_res'' ''a'')) =
       (close sent_client, Some TypeError)"
    by (simp add: close_def act_def)
  show "routingMap (run env0 sent_client [Close, Cancel (Teardown ''sum_res'' ''a'')]) ''a'' =
      Some 7"
    by (simp add: run_def close_def act_def sent_client_eq connected_client_eq)
  show "last (trace (run env0 sent_client
        [Close, Cancel (Teardown ''sum_res'' ''a''), Connect,
         ConnectEvent (1, Pub), ConnectEvent (1, Sub),
         MessageEvent (1, Sub) ''sum_res'' ''{\"id\":\"a\",\"response\":3}''])) =
       Callback 7 (Obj [(''err'', Undefined), (''response'', Num 3)])"
    by (simp add: run_def sent_client_eq connected_client_eq close_def quit_def
      act_def connect_def createClient_def handleError_def connect_event_def first_value_def Let_def
      createResponseCallback_def invoke_def env0_def JSON_parse0_def destructure_def
      routing_get_def)
qed

text \<open>
  Claim C4, amended. After \<open>send\<close> has stored the callback under the identifier of the
  packet, calling the returned teardown on a client that holds an inbound handle
  unsubscribes the response channel on that handle and removes the identifier from the
  routing table. From then on, as long as no later \<open>send\<close> is given the same
  identifier, the identifier stays absent, and a message event whose buffer carries it
  finds no callback: the router returns with the state as it was, calling nothing and
  raising nothing. On a client whose inbound handle \<open>close\<close> has removed, the teardown
  raises a TypeError and removes nothing.
\<close>

theorem teardown_unregisters:
  assumes "publish env st partialPacket callback = (Some td, sta)"
  shows "\<exists>pat ident.
           normalizePattern env (pattern partialPacket) = Inr pat
         \<and> td = Teardown (getResPatternName pat) ident
         \<and> routingMap sta ident = Some callback
         \<and> (\<forall>stb h. subClient stb = Some h \<longrightarrow>
              call_teardown stb td =
                Inr (stb\<lparr>trace := trace stb @ [Unsubscribe h (getResPatternName pat)],
                        routingMap := (routingMap stb)(ident := None)\<rparr>))
         \<and> (\<forall>stb. subClient stb = None \<longrightarrow> call_teardown stb td = Inl TypeError)
         \<and> (\<forall>stb stc ins hb channel buffer packet d.
              call_teardown stb td = Inr stc \<longrightarrow> \<not> reassigned env stc ins ident \<longrightarrow>
              JSON_parse env buffer = Inr packet \<longrightarrow> deserialize env packet = Inr d \<longrightarrow>
              js_get d ''id'' = Str ident \<longrightarrow>
                routingMap (run env stc ins) ident = None
              \<and> step env (run env stc ins) (MessageEvent hb channel buffer) =
                  (run env stc ins, None))"
proof -
  obtain packet :: Packet and pat where
    p: "normalizePattern env (pattern partialPacket) = Inr pat"
       "td = Teardown (getResPatternName pat) (packet_id packet)"
       "routingMap sta = (routingMap st)(packet_id packet \<mapsto> callback)"
    using publish_reaches_network [OF assms] by blast
  have a: "\<forall>stb h. subClient stb = Some h \<longrightarrow>
              call_teardown stb td =
                Inr (stb\<lparr>trace := trace stb @ [Unsubscribe h (getResPatternName pat)],
                        routingMap := (routingMap stb)(packet_id packet := None)\<rparr>)"
    using p(2) by (simp add: act_def)
  have c: "\<forall>stb. subClient stb = None \<longrightarrow> call_teardown stb td = Inl TypeError"
    using p(2) by simp
  have b: "routingMap (run env stc ins) (packet_id packet) = None
         \<and> step env (run env stc ins) (MessageEvent hb channel buffer) = (run env stc ins, None)"
    if t: "call_teardown stb td = Inr stc"
      and r: "\<not> reassigned env stc ins (packet_id packet)"
      and j: "JSON_parse env buffer = Inr pk" "deserialize env pk = Inr d"
             "js_get d ''id'' = Str (packet_id packet)"
    for stb stc ins hb channel buffer pk d
  proof -
    have "routingMap stc (packet_id packet) = None"
      using t p(2) by (auto simp: act_def split: option.splits)
    then have n: "routingMap (run env stc ins) (packet_id packet) = None"
      using r by (rule run_routingMap)
    have "createResponseCallback env (run env stc ins) channel buffer = (run env stc ins, None)"
      using j n by (rule createResponseCallback_unrouted)
    then show ?thesis using n by (simp add: message_event_unrouted)
  qed
  show ?thesis
    using p a b c by (intro exI [of _ pat] exI [of _ "packet_id packet"]) auto
qed


theorem teardown_unregisters_witness:
  "call_teardown sent_client (Teardown ''sum_res'' ''a'') =
     Inr (sent_client\<lparr>trace := trace sent_client @ [Unsubscribe (0, Sub) ''sum_res''],
                      routingMap := Map.empty\<rparr>)
   \<and> step env0 (run env0 cancelled_client [Emit sum_packet])
        (MessageEvent (0, Sub) ''sum_res'' ''{\"id\":\"a\",\"response\":3}'') =
       (run env0 cancelled_client [Emit sum_packet], None)"
proof -
  obtain pat ident where
    t: "Teardown ''sum_res'' ''a'' = Teardown (getResPatternName pat) ident"
    and u: "\<forall>stb h. subClient stb = Some h \<longrightarrow>
              call_teardown stb (Teardown ''sum_res'' ''a'') =
                Inr (stb\<lparr>trace := trace stb @ [Unsubscribe h (getResPatternName pat)],
                        routingMap := (routingMap stb)(ident := None)\<rparr>)"
    and d: "\<forall>stb stc ins hb channel buffer packet d.
              call_teardown stb (Teardown ''sum_res'' ''a'') = Inr stc \<longrightarrow>
              \<not> reassigned env0 stc ins ident \<longrightarrow>
              JSON_parse env0 buffer = Inr packet \<longrightarrow> deserialize env0 packet = Inr d \<longrightarrow>
              js_get d ''id'' = Str ident \<longrightarrow>
                routingMap (run env0 stc ins) ident = None
              \<and> step env0 (run env0 stc ins) (MessageEvent hb channel buffer) =
                  (run env0 stc ins, None)"
    using teardown_unregisters [OF publish_sum_sent] by blast
  have i: "ident = ''a''" and r: "getResPatternName pat = ''sum_res''"
    using t by simp_all
  have s: "subClient sent_client = Some (0, Sub)"
    by (simp add: sent_client_eq connected_client_eq)
  have c: "call_teardown sent_client (Teardown ''sum_res'' ''a'') = Inr cancelled_client"
    by (simp add: cancelled_client_def s act_def)
  have "call_teardown sent_client (Teardown ''sum_res'' ''a'') =
     Inr (sent_client\<lparr>trace := trace sent_client @ [Unsubscribe (0, Sub) ''sum_res''],
                      routingMap := Map.empty\<rparr>)"
    unfolding u [rule_format, OF s] i r
    by (simp add: sent_client_eq connected_client_eq)
  moreover have "step env0 (run env0 cancelled_client [Emit sum_packet])
        (MessageEvent (0, Sub) ''sum_res'' ''{\"id\":\"a\",\"response\":3}'') =
       (run env0 cancelled_client [Emit sum_packet], None)"
  proof -
    have "\<not> reassigned env0 cancelled_client [Emit sum_packet] ''a''"
      by (simp add: registers_def)
    moreover have "JSON_parse env0 ''{\"id\":\"a\",\"response\":3}'' =
        Inr (Obj [(''id'', Str ''a''), (''response'', Num 3)])"
      by (simp add: env0_def JSON_parse0_def)
    moreover have "deserialize env0 (Obj [(''id'', Str ''a''), (''response'', Num 3)]) =
        Inr (Obj [(''id'', Str ''a''), (''response'', Num 3)])"
      by (simp add: env0_def)
    moreover have "js_get (Obj [(''id'', Str ''a''), (''response'', Num 3)]) ''id'' = Str ''a''"
      by simp
    ultimately show ?thesis using d c i by blast
  qed
  ultimately show ?thesis by simp
qed

section \<open>Connecting\<close>

lemma subject_error_handshake:
  "length (handshakes (subject_error m err st)) = length (handshakes st)
   \<and> pub_connected (handshakes (subject_error m err st) ! n) = pub_connected (handshakes st ! n)
   \<and> sub_connected (handshakes (subject_error m err st) ! n) = sub_connected (handshakes st ! n)
   \<and> settled (handshakes (subject_error m err st) ! n) =
       (if m = n \<and> n < length (handshakes st)
        then settle (settled (handshakes st ! n)) (Rejected err)
        else settled (handshakes st ! n))"
  by (simp add: subject_error_def act_def Let_def nth_list_update)

lemma connect_event_handshake:
  assumes "n < length (handshakes st)"
  shows "length (handshakes (connect_event st h)) = length (handshakes st)
   \<and> (pub_connected (handshakes (connect_event st h) ! n) \<longrightarrow>
        pub_connected (handshakes st ! n) \<or> h = (n, Pub))
   \<and> (sub_connected (handshakes (connect_event st h) ! n) \<longrightarrow>
        sub_connected (handshakes st ! n) \<or> h = (n, Sub))
   \<and> (pub_connected (handshakes st ! n) \<longrightarrow> pub_connected (handshakes (connect_event st h) ! n))
   \<and> (sub_connected (handshakes st ! n) \<longrightarrow> sub_connected (handshakes (connect_event st h) ! n))
   \<and> (settled (handshakes (connect_event st h) ! n) = Resolved \<longrightarrow>
        settled (handshakes st ! n) = Resolved
        \<or> (pub_connected (handshakes (connect_event st h) ! n)
           \<and> sub_connected (handshakes (connect_event st h) ! n)))
   \<and> (settled (handshakes (connect_event st h) ! n) = Rejected e \<longrightarrow>
        settled (handshakes st ! n) = Rejected e
        \<or> (e = TypeError \<and> pub_connected (handshakes (connect_event st h) ! n)
           \<and> sub_connected (handshakes (connect_event st h) ! n)))"
  using assms
  by (cases h; cases "snd h")
     (auto simp: connect_event_def first_value_def act_def Let_def nth_list_update
       split: option.splits if_splits)


lemma step_handshakes_same:
  assumes "i \<noteq> Connect" and "\<forall>h. i \<noteq> ConnectEvent h" and "\<forall>h options. i \<noteq> RetryEvent h options"
  shows "handshakes (fst (step env st i)) = handshakes st"
proof (cases i)
  case (MessageEvent h channel buffer)
  then show ?thesis
    using arg_cong [OF message_event_only_trace, where f = handshakes] by simp
next
  case (Cancel td)
  then show ?thesis
    by (cases td) (auto simp: act_def split: option.splits)
next
  case (AckEvent k err)
  then show ?thesis
    by (auto simp: ack_event_def subscribe_callback_def publish_callback_def act_def Let_def
        split: option.splits ack_callback.splits sum.splits)
qed (use assms in \<open>auto simp: close_def publish_def caught_def dispatchEvent_def
      error_listener_def act_def Let_def split: sum.splits option.splits\<close>)

lemma connect_handshakes:
  "handshakes (snd (connect st)) = handshakes st
   \<or> handshakes (snd (connect st)) =
       handshakes st @ [\<lparr>pub_connected = False, sub_connected = False, settled = Pending\<rparr>]"
  by (simp add: connect_def createClient_def handleError_def act_def Let_def)

lemma settle_Rejected:
  "settle p (Rejected err) = Rejected e \<Longrightarrow> p = Rejected e \<or> err = e"
  by (auto simp: settle_def split: if_splits)

lemma settle_Resolved:
  "settle p (Rejected err) = Resolved \<Longrightarrow> p = Resolved"
  by (auto simp: settle_def split: if_splits)

lemma step_handshake:
  assumes "n < length (handshakes st)"
  shows "n < length (handshakes (fst (step env st i)))
   \<and> (pub_connected (handshakes (fst (step env st i)) ! n) \<longrightarrow>
        pub_connected (handshakes st ! n) \<or> i = ConnectEvent (n, Pub))
   \<and> (sub_connected (handshakes (fst (step env st i)) ! n) \<longrightarrow>
        sub_connected (handshakes st ! n) \<or> i = ConnectEvent (n, Sub))
   \<and> (pub_connected (handshakes st ! n) \<longrightarrow> pub_connected (handshakes (fst (step env st i)) ! n))
   \<and> (sub_connected (handshakes st ! n) \<longrightarrow> sub_connected (handshakes (fst (step env st i)) ! n))
   \<and> (settled (handshakes (fst (step env st i)) ! n) = Resolved \<longrightarrow>
        settled (handshakes st ! n) = Resolved
        \<or> (pub_connected (handshakes (fst (step env st i)) ! n)
           \<and> sub_connected (handshakes (fst (step env st i)) ! n)))
   \<and> (settled (handshakes (fst (step env st i)) ! n) = Rejected e \<longrightarrow>
        settled (handshakes st ! n) = Rejected e
        \<or> (\<exists>h options. i = RetryEvent h options \<and> fst h = n \<and> e = error options)
        \<or> (e = TypeError \<and> pub_connected (handshakes (fst (step env st i)) ! n)
           \<and> sub_connected (handshakes (fst (step env st i)) ! n)))"
proof -
  consider (c) "i = Connect" | (e) h where "i = ConnectEvent h"
    | (r) h options where "i = RetryEvent h options"
    | (o) "i \<noteq> Connect" "\<forall>h. i \<noteq> ConnectEvent h" "\<forall>h options. i \<noteq> RetryEvent h options"
    by blast
  then show ?thesis
  proof cases
    case c
    then show ?thesis
      using connect_handshakes [of st] assms by (auto simp: nth_append)
  next
    case e
    then show ?thesis
      using connect_event_handshake [OF assms, of h e] assms by simp
  next
    case r
    then show ?thesis
      using retry_event_cases [of env st "fst h" options] assms
      by (auto simp: subject_error_handshake dest: settle_Rejected settle_Resolved
          split: if_splits)
  next
    case o
    then show ?thesis
      using step_handshakes_same [of i env st] assms by simp
  qed
qed


lemma run_handshake:
  assumes "n < length (handshakes st)"
    and "\<not> pub_connected (handshakes st ! n)"
    and "\<not> sub_connected (handshakes st ! n)"
    and "settled (handshakes st ! n) = Pending"
  shows "n < length (handshakes (run env st ins))
   \<and> (pub_connected (handshakes (run env st ins) ! n) \<longrightarrow> ConnectEvent (n, Pub) \<in> set ins)
   \<and> (sub_connected (handshakes (run env st ins) ! n) \<longrightarrow> ConnectEvent (n, Sub) \<in> set ins)
   \<and> (settled (handshakes (run env st ins) ! n) = Resolved \<longrightarrow>
        pub_connected (handshakes (run env st ins) ! n)
        \<and> sub_connected (handshakes (run env st ins) ! n))
   \<and> (\<forall>e. settled (handshakes (run env st ins) ! n) = Rejected e \<longrightarrow>
        (\<exists>h options. RetryEvent h options \<in> set ins \<and> fst h = n \<and> e = error options)
        \<or> (e = TypeError \<and> pub_connected (handshakes (run env st ins) ! n)
           \<and> sub_connected (handshakes (run env st ins) ! n)))"
proof (induction ins rule: rev_induct)
  case Nil
  show ?case using assms by (simp add: run_Nil)
next
  case (snoc i ins)
  let ?s = "run env st ins"
  let ?t = "fst (step env ?s i)"
  have len: "n < length (handshakes ?s)" using snoc.IH by simp
  note stp = step_handshake [OF len, of env i]
  have 1: "n < length (handshakes ?t)" using stp by simp
  have 2: "pub_connected (handshakes ?t ! n) \<longrightarrow> ConnectEvent (n, Pub) \<in> set (ins @ [i])"
    using stp snoc.IH by auto
  have 3: "sub_connected (handshakes ?t ! n) \<longrightarrow> ConnectEvent (n, Sub) \<in> set (ins @ [i])"
    using stp snoc.IH by auto
  have 4: "settled (handshakes ?t ! n) = Resolved \<longrightarrow>
        pub_connected (handshakes ?t ! n) \<and> sub_connected (handshakes ?t ! n)"
    using stp snoc.IH by blast
  have 5: "(\<exists>h options. RetryEvent h options \<in> set (ins @ [i]) \<and> fst h = n \<and> e = error options)
        \<or> (e = TypeError \<and> pub_connected (handshakes ?t ! n)
           \<and> sub_connected (handshakes ?t ! n))"
    if r: "settled (handshakes ?t ! n) = Rejected e" for e
  proof -
    from stp [of e] r consider
        (old) "settled (handshakes ?s ! n) = Rejected e"
      | (retry) h options where "i = RetryEvent h options" "fst h = n" "e = error options"
      | (tap) "e = TypeError" "pub_connected (handshakes ?t ! n)"
          "sub_connected (handshakes ?t ! n)"
      by blast
    then show ?thesis
    proof cases
      case old
      then consider
          (a) h options where "RetryEvent h options \<in> set ins" "fst h = n" "e = error options"
        | (b) "e = TypeError" "pub_connected (handshakes ?s ! n)"
            "sub_connected (handshakes ?s ! n)"
        using snoc.IH by blast
      then show ?thesis
      proof cases
        case a
        then show ?thesis
          by (intro disjI1 exI [of _ h] exI [of _ options]) simp
      next
        case b
        then show ?thesis using stp by blast
      qed
    next
      case retry
      then show ?thesis
        by (intro disjI1 exI [of _ h] exI [of _ options]) simp
    next
      case tap
      then show ?thesis by simp
    qed
  qed
  show ?case
    unfolding run_snoc using 1 2 3 4 5 by blast
qed


lemma subject_error_handles:
  "pubClient (subject_error n err st) = pubClient st
   \<and> subClient (subject_error n err st) = subClient st
   \<and> connection (subject_error n err st) = connection st"
  by (simp add: subject_error_def act_def Let_def)

lemma step_keeps_connection:
  assumes "both_handles st" and "i \<noteq> Close"
  shows "pubClient (fst (step env st i)) = pubClient st
       \<and> subClient (fst (step env st i)) = subClient st
       \<and> connection (fst (step env st i)) = connection st"
proof (cases i)
  case (MessageEvent h channel buffer)
  then show ?thesis
    using arg_cong [OF message_event_only_trace, where f = pubClient]
      arg_cong [OF message_event_only_trace, where f = subClient]
      arg_cong [OF message_event_only_trace, where f = connection]
    by simp
next
  case (RetryEvent h options)
  then show ?thesis
    using retry_event_cases [of env st "fst h" options]
    by (auto simp: subject_error_handles)
next
  case (Cancel td)
  then show ?thesis
    by (cases td) (auto simp: act_def split: option.splits)
next
  case (AckEvent k err)
  then show ?thesis
    by (auto simp: ack_event_def subscribe_callback_def publish_callback_def act_def Let_def
        split: option.splits ack_callback.splits sum.splits)
qed (use assms in \<open>auto simp: both_handles_def connect_def createClient_def handleError_def publish_def caught_def
      dispatchEvent_def connect_event_def first_value_def error_listener_def act_def Let_def
      split: sum.splits option.splits\<close>)

lemma run_keeps_connection:
  assumes "both_handles st" and "Close \<notin> set ins"
  shows "both_handles (run env st ins) \<and> connection (run env st ins) = connection st"
  using assms
proof (induction ins arbitrary: st)
  case Nil
  then show ?case by (simp add: run_Nil)
next
  case (Cons i ins)
  have k: "pubClient (fst (step env st i)) = pubClient st
       \<and> subClient (fst (step env st i)) = subClient st
       \<and> connection (fst (step env st i)) = connection st"
    using Cons.prems by (intro step_keeps_connection) auto
  then have "both_handles (fst (step env st i))"
    using Cons.prems(1) by (simp add: both_handles_def)
  then show ?case using Cons.IH [of "fst (step env st i)"] Cons.prems(2) k
    by (simp add: run_Cons)
qed

lemma connect_new:
  assumes "\<not> both_handles st"
  shows "connect st =
     (Some (length (handshakes st)),
      st\<lparr>trace := trace st @
            [CreateClient (length (handshakes st), Pub),
             CreateClient (length (handshakes st), Sub),
             AddErrorListener (length (handshakes st), Pub),
             AddErrorListener (length (handshakes st), Sub)],
         pubClient := Some (length (handshakes st), Pub),
         subClient := Some (length (handshakes st), Sub),
         handshakes := handshakes st @
           [\<lparr>pub_connected = False, sub_connected = False, settled = Pending\<rparr>],
         connection := Some (length (handshakes st))\<rparr>)"
  using assms by (auto simp: connect_def createClient_def handleError_def both_handles_def act_def Let_def)

lemma connect_then_ready:
  assumes "\<not> both_handles st"
  shows "settled (handshakes (run env (snd (connect st))
            [ConnectEvent (length (handshakes st), Pub),
             ConnectEvent (length (handshakes st), Sub)]) ! length (handshakes st)) = Resolved"
    and "settled (handshakes (run env (snd (connect st))
            [ConnectEvent (length (handshakes st), Sub),
             ConnectEvent (length (handshakes st), Pub)]) ! length (handshakes st)) = Resolved"
  by (simp_all add: connect_new [OF assms] run_def connect_event_def first_value_def act_def
      Let_def)

text \<open>
  Claim C6. When both handles exist, \<open>connect\<close> returns the memoized promise and leaves
  the state as it is: no handle is created. As long as no \<open>close\<close> intervenes, every
  later caller of \<open>connect\<close>, whatever turns of the event loop lie between, gets that
  same promise, so all callers share one handshake. Otherwise \<open>connect\<close> creates
  exactly one outbound and one inbound handle and a new pending promise, which is
  resolved only after both handles have emitted their connect event, and rejected only
  after an error was put on the shared error channel by the retry strategy (or, the
  events having arrived, because \<open>close\<close> had removed the inbound handle). Both events,
  in either order, resolve it.
\<close>

theorem connect_memoizes:
  "(both_handles st \<longrightarrow> connect st = (connection st, st))
   \<and> (both_handles st \<longrightarrow> Close \<notin> set ins \<longrightarrow>
        connect (run env st ins) = (connection st, run env st ins))
   \<and> (\<not> both_handles st \<longrightarrow>
        connect st =
          (Some (length (handshakes st)),
           st\<lparr>trace := trace st @
                 [CreateClient (length (handshakes st), Pub),
                  CreateClient (length (handshakes st), Sub),
                  AddErrorListener (length (handshakes st), Pub),
                  AddErrorListener (length (handshakes st), Sub)],
              pubClient := Some (length (handshakes st), Pub),
              subClient := Some (length (handshakes st), Sub),
              handshakes := handshakes st @
                [\<lparr>pub_connected = False, sub_connected = False, settled = Pending\<rparr>],
              connection := Some (length (handshakes st))\<rparr>)
      \<and> both_handles (snd (connect st))
      \<and> (settled (handshakes (run env (snd (connect st)) ins) ! length (handshakes st)) = Resolved
            \<longrightarrow> ConnectEvent (length (handshakes st), Pub) \<in> set ins
              \<and> ConnectEvent (length (handshakes st), Sub) \<in> set ins)
      \<and> (settled (handshakes (run env (snd (connect st)) ins) ! length (handshakes st)) = Rejected e
            \<longrightarrow> (\<exists>h options. RetryEvent h options \<in> set ins
                    \<and> fst h = length (handshakes st) \<and> e = error options)
              \<or> (e = TypeError \<and> ConnectEvent (length (handshakes st), Pub) \<in> set ins
                  \<and> ConnectEvent (length (handshakes st), Sub) \<in> set ins))
      \<and> settled (handshakes (run env (snd (connect st))
            [ConnectEvent (length (handshakes st), Pub),
             ConnectEvent (length (handshakes st), Sub)]) ! length (handshakes st)) = Resolved
      \<and> settled (handshakes (run env (snd (connect st))
            [ConnectEvent (length (handshakes st), Sub),
             ConnectEvent (length (handshakes st), Pub)]) ! length (handshakes st)) = Resolved)"
proof (intro conjI impI)
  assume "both_handles st"
  then show "connect st = (connection st, st)"
    by (simp add: connect_def createClient_def handleError_def both_handles_def)
next
  assume "both_handles st" "Close \<notin> set ins"
  then have "both_handles (run env st ins) \<and> connection (run env st ins) = connection st"
    by (rule run_keeps_connection)
  then show "connect (run env st ins) = (connection st, run env st ins)"
    by (simp add: connect_def createClient_def handleError_def both_handles_def)
next
  assume n: "\<not> both_handles st"
  let ?n = "length (handshakes st)"
  let ?s = "snd (connect st)"
  show "connect st =
          (Some ?n,
           st\<lparr>trace := trace st @
                 [CreateClient (?n, Pub), CreateClient (?n, Sub),
                  AddErrorListener (?n, Pub), AddErrorListener (?n, Sub)],
              pubClient := Some (?n, Pub), subClient := Some (?n, Sub),
              handshakes := handshakes st @
                [\<lparr>pub_connected = False, sub_connected = False, settled = Pending\<rparr>],
              connection := Some ?n\<rparr>)"
    using n by (rule connect_new)
  show "both_handles ?s"
    by (simp add: connect_new [OF n] both_handles_def)
  have h: "?n < length (handshakes ?s)" "\<not> pub_connected (handshakes ?s ! ?n)"
    "\<not> sub_connected (handshakes ?s ! ?n)" "settled (handshakes ?s ! ?n) = Pending"
    by (simp_all add: connect_new [OF n])
  note r = run_handshake [OF h, of env ins]
  show "ConnectEvent (?n, Pub) \<in> set ins"
    if "settled (handshakes (run env ?s ins) ! ?n) = Resolved"
    using r that by blast
  show "ConnectEvent (?n, Sub) \<in> set ins"
    if "settled (handshakes (run env ?s ins) ! ?n) = Resolved"
    using r that by blast
  show "(\<exists>h options. RetryEvent h options \<in> set ins \<and> fst h = ?n \<and> e = error options)
      \<or> (e = TypeError \<and> ConnectEvent (?n, Pub) \<in> set ins \<and> ConnectEvent (?n, Sub) \<in> set ins)"
    if "settled (handshakes (run env ?s ins) ! ?n) = Rejected e"
    using r that by blast
  show "settled (handshakes (run env ?s [ConnectEvent (?n, Pub), ConnectEvent (?n, Sub)]) ! ?n) =
      Resolved"
    using n by (rule connect_then_ready(1))
  show "settled (handshakes (run env ?s [ConnectEvent (?n, Sub), ConnectEvent (?n, Pub)]) ! ?n) =
      Resolved"
    using n by (rule connect_then_ready(2))
qed

theorem connect_memoizes_witness:
  "connect new_client = (Some 0, run env0 new_client [Connect])
   \<and> connect connected_client = (Some 0, connected_client)
   \<and> connect (run env0 connected_client [Send sum_packet 7, Connect, Emit sum_packet]) =
       (Some 0, run env0 connected_client [Send sum_packet 7, Connect, Emit sum_packet])
   \<and> settled (handshakes connected_client ! 0) = Resolved"
proof -
  have b: "both_handles connected_client"
    by (simp add: both_handles_def connected_client_eq)
  have n: "\<not> both_handles new_client"
    by (simp add: both_handles_def new_client_def)
  have c: "connection connected_client = Some 0"
    by (simp add: connected_client_eq)
  have l: "length (handshakes new_client) = 0"
    by (simp add: new_client_def)
  have s: "snd (connect new_client) = run env0 new_client [Connect]"
    by (simp add: run_def)
  have "connect new_client = (Some 0, run env0 new_client [Connect])"
    using connect_memoizes [where st = new_client] n l s by (simp add: prod_eq_iff)
  moreover have "connect connected_client = (Some 0, connected_client)"
    using connect_memoizes [where st = connected_client] b c by simp
  moreover have "connect (run env0 connected_client [Send sum_packet 7, Connect, Emit sum_packet]) =
       (Some 0, run env0 connected_client [Send sum_packet 7, Connect, Emit sum_packet])"
    using connect_memoizes [where st = connected_client and env = env0
        and ins = "[Send sum_packet 7, Connect, Emit sum_packet]"] b c by simp
  moreover have "settled (handshakes connected_client ! 0) = Resolved"
  proof -
    have k: "connected_client =
        run env0 (snd (connect new_client)) [ConnectEvent (0, Pub), ConnectEvent (0, Sub)]"
      by (simp add: connected_client_def run_Cons)
    have "settled (handshakes (run env0 (snd (connect new_client))
            [ConnectEvent (length (handshakes new_client), Pub),
             ConnectEvent (length (handshakes new_client), Sub)]) !
              length (handshakes new_client)) = Resolved"
      using connect_memoizes [where st = new_client and env = env0] n by blast
    then show ?thesis unfolding k l .
  qed
  ultimately show ?thesis by simp
qed


end
